theory Spec2Isabelle
  imports Complex_Main "HOL-Library.Word" "HOL-Library.AList"
begin

section \<open>The Leaflet frontend of protomaps-leaflet (src/frontends/leaflet.ts)\<close>

text \<open>
  A shallow embedding of the class \<open>LeafletLayer\<close>. JavaScript numbers are modelled
  as mathematical numbers: tile coordinates and zoom levels as \<open>int\<close>, pixel quantities
  and delays as \<open>real\<close> (rounding of IEEE doubles is not modelled). \<open>undefined\<close> and
  \<open>null\<close> are \<open>None\<close>. Objects with identity (canvas elements) live in a store
  indexed by \<open>nat\<close>. Calls into collaborators that are not part of this file (source
  views, the label layout engine, the host map, the console, the host's callbacks) are
  recorded in an event list, and what they return is an input of the model.
\<close>

subsection \<open>Data\<close>

text \<open>Leaflet's \<open>Coords\<close>: a point with a zoom level.\<close>

record coords =
  cx :: int
  cy :: int
  cz :: int

type_synonym point = "real \<times> real"

text \<open>The type \<open>Pointer\<close> (fields \<open>x y tileX tileY X Y\<close>).\<close>

record Pointer =
  ptr_x :: real
  ptr_y :: real
  tileX :: int
  tileY :: int
  ptr_X :: real
  ptr_Y :: real

record js_error =
  err_name :: string
  err_message :: string

definition TypeError :: js_error where
  "TypeError = \<lparr>err_name = ''TypeError'', err_message = []\<rparr>"

text \<open>A \<open>PreparedTile\<close>, as far as this file reads it (\<open>dataTile\<close>, \<open>dim\<close>, \<open>origin\<close>).\<close>

record prepared_tile =
  pt_dataTile :: coords
  pt_dim :: real
  pt_origin :: point
  pt_content :: nat

text \<open>How one source's \<open>getDisplayTile\<close> promise settled.\<close>

datatype settled = Fulfilled prepared_tile | Rejected js_error

text \<open>The \<open>Map<string, PreparedTile[]>\<close> of one render, in insertion order.\<close>

type_synonym tilemap = "(string \<times> prepared_tile list) list"

record picked_feature =
  pf_feature :: nat
  pf_layerName :: string

record click_event =
  ev_lat :: real
  ev_lng :: real
  ev_id :: nat

text \<open>What \<open>renderTile\<close> reads of the host map: its zoom and the centre of the tile range
  of the current view (\<open>_pxBoundsToTileRange(_getTiledPixelBounds(getCenter().wrap())).getCenter()\<close>).\<close>

record host_map =
  map_zoom :: int
  map_tileCenter :: point

record bbox =
  minX :: int
  minY :: int
  maxX :: int
  maxY :: int

text \<open>The arguments of the call of \<open>paint\<close> (the context is the canvas the call is recorded on).\<close>

record paint_args =
  pa_z :: int
  pa_tilemap :: tilemap
  pa_labelData :: "nat list option"
  pa_paintRules :: "nat list"
  pa_bbox :: bbox
  pa_origin :: "int \<times> int"
  pa_clip :: bool
  pa_debug :: "string option"
  pa_pointer :: "point option"
  pa_pickedFeatures :: "picked_feature list"

text \<open>The template literals of the debug overlay, with their arguments.\<close>

datatype overlay_text =
    TxtTile int int int
  | TxtBBox int int int int
  | TxtPointer real real int int real real
  | TxtSourceTile string int int int
  | TxtSourceBBox real real real real
  | TxtSourcePointer real real int int
  | TxtPaintTime real
  | TxtLayoutTime real

text \<open>Operations on a canvas's 2D context.\<close>

datatype ctx_op =
    SetTransform real real real real real real
  | ClearRect real real real real
  | Save
  | Restore
  | FillStyle string
  | FillRect real real real real
  | Font string
  | FillText overlay_text real real
  | StrokeStyle string
  | LineWidth real
  | BeginPath
  | MoveTo real real
  | LineTo real real
  | Stroke
  | Paint paint_args

text \<open>A canvas element tagged with a key (\<open>KeyedHtmlCanvasElement\<close>).\<close>

record element =
  el_key :: "string option"
  el_removed :: bool
  el_lang :: "string option"
  el_classes :: "string list"
  el_in_dom :: bool
  el_width :: real
  el_height :: real
  el_has_ctx :: bool
  el_ops :: "ctx_op list"

text \<open>The completion callback of a render: the default \<open>() => {}\<close>, or the closure of
  \<open>createTile\<close> that calls \<open>showTile(undefined, element)\<close>.\<close>

datatype done_cb = NoOp | ShowTile nat

datatype event =
    GetDisplayTile string coords
  | ConsoleError js_error
  | ConsoleErrorMsg string
  | LabelersAdd int tilemap
  | LabelersGetIndex int
  | SetTimer real
  | DoneCalled done_cb
  | TileReady nat
  | Redraw
  | FireClick click_event nat
  | FireTileUnload nat coords

record options =
  opt_bounds :: "real list list option"
  opt_attribution :: "string option"
  opt_debug :: "string option"
  opt_lang :: "string option"
  opt_tileDelay :: "real option"
  opt_noWrap :: "bool option"
  opt_paintRules :: "nat list option"
  opt_labelRules :: "nat list option"
  opt_tasks :: "nat list option"
  opt_theme :: "string option"
  opt_backgroundColor :: "string option"
  opt_sources :: "string list"

record theme =
  th_background :: string
  th_colors :: nat

text \<open>What the constructor takes from outside this file: \<open>window.devicePixelRatio\<close>, the
  table \<open>themes\<close>, \<open>paintRules\<close> and \<open>labelRules\<close> of the default style, and
  \<open>sourcesToViews\<close> (of which only the names of the views matter here).\<close>

record externals =
  devicePixelRatio :: real
  themes :: "string \<Rightarrow> theme option"
  style_paintRules :: "theme \<Rightarrow> nat list"
  style_labelRules :: "theme \<Rightarrow> nat list"
  sourcesToViews :: "options \<Rightarrow> string list"

text \<open>The layer object with the host state it touches: \<open>l_map\<close> is \<open>_map\<close>,
  \<open>l_tiles\<close> is \<open>_tiles\<close> (key to element, in insertion order), \<open>label_index\<close> is what
  \<open>labelers.getIndex\<close> returns per zoom, \<open>timeouts\<close> are the pending callbacks of
  \<open>_onLayerClick\<close> with their due times in milliseconds.\<close>

record layer =
  l_options :: options
  paintRules :: "nat list"
  labelRules :: "nat list"
  backgroundColor :: "string option"
  lastRequestedZ :: "int option"
  tasks :: "nat list"
  views :: "string list"
  debug :: "string option"
  tileSize :: real
  tileDelay :: real
  lang :: "string option"
  xray :: bool
  pointer :: "Pointer option"
  pickedFeatures :: "picked_feature list"
  l_map :: "host_map option"
  l_tiles :: "(string \<times> nat) list"
  label_index :: "int \<Rightarrow> nat list"
  elements :: "nat \<Rightarrow> element"
  next_el :: nat
  events :: "event list"
  clock :: nat
  timeouts :: "(nat \<times> click_event) list"

subsection \<open>JavaScript truthiness\<close>

text \<open>A string is truthy when it is defined and not empty, a number when it is defined and
  not zero (NaN has no counterpart in \<open>real\<close>). Both functions return the value when it
  is truthy.\<close>

definition truthy_str :: "string option \<Rightarrow> string option" where
  "truthy_str s = (case s of None \<Rightarrow> None | Some v \<Rightarrow> if v = [] then None else Some v)"

definition truthy_num :: "real option \<Rightarrow> real option" where
  "truthy_num n = (case n of None \<Rightarrow> None | Some v \<Rightarrow> if v = 0 then None else Some v)"

subsection \<open>The constructor\<close>

text \<open>The default attribution (its copyright sign is written \<open>(c)\<close> here).\<close>

definition default_attribution :: string where
  \<open>default_attribution =
     ''<a href="https://protomaps.com">Protomaps</a> (c) <a href="https://openstreetmap.org/copyright">OpenStreetMap</a>''\<close>

definition fresh_element :: element where
  "fresh_element = \<lparr>el_key = None, el_removed = False, el_lang = None, el_classes = [],
     el_in_dom = False, el_width = 300, el_height = 150, el_has_ctx = True, el_ops = []\<rparr>"

definition super_options :: "options \<Rightarrow> options" where
  "super_options options =
     (let o1 = (if opt_noWrap options = Some True \<and> opt_bounds options = None
                then options\<lparr>opt_bounds := Some [[-90, -180], [90, 180]]\<rparr> else options)
      in if opt_attribution o1 = None then o1\<lparr>opt_attribution := Some default_attribution\<rparr>
         else o1)"

definition init_layer ::
  "externals \<Rightarrow> options \<Rightarrow> nat list \<Rightarrow> nat list \<Rightarrow> string option \<Rightarrow> layer" where
  "init_layer ext options pr lr bg =
     \<lparr>l_options = options, paintRules = pr, labelRules = lr, backgroundColor = bg,
      lastRequestedZ = None,
      tasks = (case opt_tasks options of None \<Rightarrow> [] | Some ts \<Rightarrow> ts),
      views = sourcesToViews ext options,
      debug = opt_debug options,
      tileSize = 256 * devicePixelRatio ext,
      tileDelay = (case truthy_num (opt_tileDelay options) of None \<Rightarrow> 3 | Some v \<Rightarrow> v),
      lang = opt_lang options,
      xray = False, pointer = None, pickedFeatures = [], l_map = None, l_tiles = [],
      label_index = (\<lambda>z. []), elements = (\<lambda>i. fresh_element), next_el = 0, events = [],
      clock = 0, timeouts = []\<rparr>"

definition LeafletLayer :: "externals \<Rightarrow> options \<Rightarrow> js_error + layer" where
  "LeafletLayer ext options0 =
     (let options = super_options options0
      in case truthy_str (opt_theme options) of
           Some name \<Rightarrow>
             (case themes ext name of
                None \<Rightarrow> Inl TypeError
              | Some theme \<Rightarrow>
                  Inr (init_layer ext options (style_paintRules ext theme)
                         (style_labelRules ext theme) (Some (th_background theme))))
         | None \<Rightarrow>
             Inr (init_layer ext options
                    (case opt_paintRules options of None \<Rightarrow> [] | Some r \<Rightarrow> r)
                    (case opt_labelRules options of None \<Rightarrow> [] | Some r \<Rightarrow> r)
                    (opt_backgroundColor options)))"

subsection \<open>The pointer projector \<open>_getPointer\<close>\<close>

definition R :: real where
  "R = 6378137"

definition MAX_LATITUDE :: real where
  "MAX_LATITUDE = 850511287798 / 10000000000"

definition MAXCOORD :: real where
  "MAXCOORD = R * pi"

definition project :: "real \<times> real \<Rightarrow> point" where
  "project latlng =
     (let d = pi / 180;
          constrainedLat = max (min MAX_LATITUDE (fst latlng)) (- MAX_LATITUDE);
          sn = sin (constrainedLat * d)
      in (R * snd latlng * d, (R * ln ((1 + sn) / (1 - sn))) / 2))"

definition normalized :: "real \<times> real \<Rightarrow> point" where
  "normalized latlng =
     (let projected = project latlng;
          nx = (fst projected + MAXCOORD) / (MAXCOORD * 2);
          ny = 1 - (snd projected + MAXCOORD) / (MAXCOORD * 2)
      in (if nx > 1 then nx - of_int \<lfloor>nx\<rfloor> else nx, ny))"

text \<open>JavaScript's \<open>1 << n\<close> for an integral \<open>n\<close> (the zoom of the map is taken to be
  integral): a shift of a 32-bit integer by \<open>n mod 32\<close>, read as signed.\<close>

definition shl1 :: "int \<Rightarrow> int" where
  "shl1 n = sint (push_bit (nat (n mod 32)) (1 :: 32 word))"

definition onZoom :: "int \<Rightarrow> real \<times> real \<Rightarrow> point" where
  "onZoom zoom latlng =
     (fst (normalized latlng) * of_int (shl1 zoom), snd (normalized latlng) * of_int (shl1 zoom))"

definition getPointer :: "layer \<Rightarrow> click_event \<Rightarrow> js_error + Pointer" where
  "getPointer w event =
     (case l_map w of
        None \<Rightarrow> Inl TypeError
      | Some m \<Rightarrow>
          (let oz = onZoom (map_zoom m) (ev_lat event, ev_lng event);
               tx = \<lfloor>fst oz\<rfloor>;
               ty = \<lfloor>snd oz\<rfloor>;
               x = (fst oz - of_int tx) * tileSize w;
               y = (snd oz - of_int ty) * tileSize w
           in Inr \<lparr>ptr_x = x, ptr_y = y, tileX = tx, tileY = ty,
                   ptr_X = of_int tx * tileSize w + x,
                   ptr_Y = of_int ty * tileSize w + y\<rparr>))"

subsection \<open>\<open>renderTile\<close> as a coroutine\<close>

text \<open>
  An invocation of the async function \<open>renderTile\<close> runs until its next \<open>await\<close>, and is
  resumed later in whatever state the layer is in by then. The program counter says where
  the invocation is suspended and holds the local variables that are live there
  (\<open>promises\<close>; \<open>preparedTilemap\<close>; \<open>layoutTime\<close> and \<open>labelData\<close>). The call of
  \<open>labelers.add\<close> is treated like an \<open>await\<close>: it runs code of the layout engine, which
  may call back into the layer (\<open>onTilesInvalidated\<close>).
\<close>

datatype pc =
    AwaitFetch "string list"
  | AwaitTasks tilemap
  | AwaitLabelAdd tilemap
  | AwaitTimer tilemap real "nat list"
  | Finished

record render =
  r_coords :: coords
  r_element :: nat
  r_key :: string
  r_done :: done_cb
  r_pc :: pc

text \<open>What an awaited operation delivers when the invocation is resumed: how each view's
  promise settled, and the layout time returned by \<open>labelers.add\<close>.\<close>

record settlement =
  s_fetched :: "string \<Rightarrow> settled"
  s_layoutTime :: real

text \<open>The staleness gate: \<open>if (element.key !== key) return;
  if (this.lastRequestedZ !== coords.z) return;\<close>\<close>

definition stale :: "render \<Rightarrow> layer \<Rightarrow> bool" where
  "stale t w \<longleftrightarrow>
     el_key (elements w (r_element t)) \<noteq> Some (r_key t) \<or>
     lastRequestedZ w \<noteq> Some (cz (r_coords t))"

definition finish :: "render \<Rightarrow> render" where
  "finish t = t\<lparr>r_pc := Finished\<rparr>"

definition emit :: "event list \<Rightarrow> layer \<Rightarrow> layer" where
  "emit es w = w\<lparr>events := events w @ es\<rparr>"

text \<open>Lines 130 to 136: up to the first \<open>await\<close>.\<close>

definition renderTile :: "coords \<Rightarrow> nat \<Rightarrow> string \<Rightarrow> done_cb \<Rightarrow> layer \<Rightarrow> render \<times> layer" where
  "renderTile coords element key done w =
     (\<lparr>r_coords = coords, r_element = element, r_key = key, r_done = done,
       r_pc = AwaitFetch (views w)\<rparr>,
      emit (map (\<lambda>k. GetDisplayTile k coords) (views w)) (w\<lparr>lastRequestedZ := Some (cz coords)\<rparr>))"

text \<open>Lines 150 to 161: the loop over \<open>tileResponses\<close>, its map and its console output.\<close>

fun build_tilemap :: "(string \<times> settled) list \<Rightarrow> tilemap \<Rightarrow> tilemap" where
  "build_tilemap [] m = m"
| "build_tilemap ((k, Fulfilled v) # rs) m = build_tilemap rs (AList.update k [v] m)"
| "build_tilemap ((k, Rejected e) # rs) m = build_tilemap rs m"

fun logged_reasons :: "(string \<times> settled) list \<Rightarrow> js_error list" where
  "logged_reasons [] = []"
| "logged_reasons ((k, Fulfilled v) # rs) = logged_reasons rs"
| "logged_reasons ((k, Rejected e) # rs) =
     (if err_name e = ''AbortError'' then logged_reasons rs else e # logged_reasons rs)"

definition tileResponses :: "string list \<Rightarrow> (string \<Rightarrow> settled) \<Rightarrow> (string \<times> settled) list" where
  "tileResponses ks fetched = map (\<lambda>k. (k, fetched k)) ks"

text \<open>Lines 137 to 166: resumed after the fetch barrier.\<close>

definition after_fetch :: "render \<Rightarrow> string list \<Rightarrow> settlement \<Rightarrow> layer \<Rightarrow> render \<times> layer" where
  "after_fetch t ks s w =
     (let rs = tileResponses ks (s_fetched s);
          preparedTilemap = build_tilemap rs [];
          w1 = emit (map ConsoleError (logged_reasons rs)) w
      in if stale t w1 then (finish t, w1)
         else (t\<lparr>r_pc := AwaitTasks preparedTilemap\<rparr>, w1))"

text \<open>Lines 168 to 171: resumed after the barrier of the auxiliary tasks.\<close>

definition after_tasks :: "render \<Rightarrow> tilemap \<Rightarrow> layer \<Rightarrow> render \<times> layer" where
  "after_tasks t preparedTilemap w =
     (if stale t w then (finish t, w)
      else (t\<lparr>r_pc := AwaitLabelAdd preparedTilemap\<rparr>,
            emit [LabelersAdd (cz (r_coords t)) preparedTilemap] w))"

text \<open>Modelled from the spec: \<open>coords.distanceTo(tileCenter)\<close> is \<open>Point.distanceTo\<close> of
  the host library, which is not part of the repository; the spec gives the distance as
  the Euclidean one in tile-grid units.\<close>

definition distanceTo :: "coords \<Rightarrow> point \<Rightarrow> real" where
  "distanceTo c p = sqrt ((fst p - of_int (cx c))\<^sup>2 + (snd p - of_int (cy c))\<^sup>2)"

definition priority :: "layer \<Rightarrow> coords \<Rightarrow> point \<Rightarrow> real" where
  "priority w c tileCenter = distanceTo c tileCenter * tileDelay w"

text \<open>Lines 173 to 186: resumed when \<open>labelers.add\<close> has returned \<open>layoutTime\<close>.\<close>

definition after_add :: "render \<Rightarrow> tilemap \<Rightarrow> real \<Rightarrow> layer \<Rightarrow> render \<times> layer" where
  "after_add t preparedTilemap layoutTime w =
     (if stale t w then (finish t, w)
      else
        (let labelData = label_index w (cz (r_coords t));
             w1 = emit [LabelersGetIndex (cz (r_coords t))] w
         in case l_map w1 of
              None \<Rightarrow> (finish t, w1)
            | Some m \<Rightarrow>
                (t\<lparr>r_pc := AwaitTimer preparedTilemap layoutTime labelData\<rparr>,
                 emit [SetTimer (priority w1 (r_coords t) (map_tileCenter m))] w1)))"

subsection \<open>The paint stage\<close>

definition tile_bbox :: "coords \<Rightarrow> bbox" where
  "tile_bbox c =
     \<lparr>minX = 256 * cx c, minY = 256 * cy c, maxX = 256 * (cx c + 1), maxY = 256 * (cy c + 1)\<rparr>"

definition buf :: int where
  "buf = 16"

definition bboxWithBuffer :: "coords \<Rightarrow> bbox" where
  "bboxWithBuffer c =
     \<lparr>minX = 256 * cx c - buf, minY = 256 * cy c - buf,
      maxX = 256 * (cx c + 1) + buf, maxY = 256 * (cy c + 1) + buf\<rparr>"

definition tile_origin :: "coords \<Rightarrow> int \<times> int" where
  "tile_origin c = (256 * cx c, 256 * cy c)"

text \<open>Lines 228 to 239: the pointer of the layer when it lies in this tile's box.\<close>

definition pointerInTile :: "Pointer option \<Rightarrow> bbox \<Rightarrow> Pointer option" where
  "pointerInTile p b =
     (case p of
        None \<Rightarrow> None
      | Some q \<Rightarrow>
          if ptr_X q \<ge> of_int (minX b) \<and> ptr_X q \<le> of_int (maxX b) \<and>
             ptr_Y q \<le> of_int (maxY b) \<and> ptr_Y q \<ge> of_int (minY b)
          then Some q else None)"

definition background_ops :: "string option \<Rightarrow> ctx_op list" where
  "background_ops bg =
     (case truthy_str bg of
        None \<Rightarrow> []
      | Some c \<Rightarrow> [Save, FillStyle c, FillRect 0 0 256 256, Restore])"

text \<open>Lines 269 to 284: the overlay lines of the sources. The result says whether the loop
  ran to its end: reading \<open>v[0].dataTile\<close> of an empty array throws a TypeError.\<close>

fun source_lines ::
  "Pointer option \<Rightarrow> int \<times> int \<Rightarrow> tilemap \<Rightarrow> real \<Rightarrow> ctx_op list \<Rightarrow> bool \<times> real \<times> ctx_op list" where
  "source_lines pit orig [] ypos ops = (True, ypos, ops)"
| "source_lines pit orig ((k, []) # rest) ypos ops = (False, ypos, ops)"
| "source_lines pit orig ((k, v0 # vs) # rest) ypos ops =
     (let dt = pt_dataTile v0; d = pt_dim v0; org = pt_origin v0;
          ops1 = ops @ [FillText (TxtSourceTile k (cz dt) (cx dt) (cy dt)) 4 ypos,
                        FillText (TxtSourceBBox (fst org) (snd org) (fst org + d) (snd org + d)) 4 (ypos + 14)]
      in case pit of
           None \<Rightarrow> source_lines pit orig rest (ypos + 28) ops1
         | Some q \<Rightarrow>
             source_lines pit orig rest (ypos + 42)
               (ops1 @ [FillText (TxtSourcePointer (of_int (fst orig) + ptr_x q - fst org)
                                    (of_int (snd orig) + ptr_y q - snd org) (cx dt) (cy dt))
                          4 (ypos + 28)]))"

definition timing_lines :: "real \<Rightarrow> real \<Rightarrow> real \<Rightarrow> ctx_op list" where
  "timing_lines paintingTime layoutTime ypos =
     (if paintingTime > 8 then [FillText (TxtPaintTime paintingTime) 4 ypos] else []) @
     (if layoutTime > 8
      then [FillText (TxtLayoutTime layoutTime) 4 (if paintingTime > 8 then ypos + 14 else ypos)]
      else [])"

definition border_ops :: "string \<Rightarrow> ctx_op list" where
  "border_ops dbg =
     [StrokeStyle dbg,
      LineWidth (1 / 2), BeginPath, MoveTo 0 0, LineTo 0 256, Stroke,
      LineWidth (1 / 2), BeginPath, MoveTo 0 0, LineTo 256 0, Stroke,
      Restore]"

text \<open>Lines 255 to 312: the debug overlay; the result says whether it ran to its end.\<close>

definition debug_overlay ::
  "string \<Rightarrow> coords \<Rightarrow> Pointer option \<Rightarrow> tilemap \<Rightarrow> real \<Rightarrow> real \<Rightarrow> bool \<times> ctx_op list" where
  "debug_overlay dbg c pit preparedTilemap paintingTime layoutTime =
     (let b = tile_bbox c;
          head = [Save, FillStyle dbg, Font ''600 12px sans-serif'',
                  FillText (TxtTile (cz c) (cx c) (cy c)) 4 14,
                  FillText (TxtBBox (minX b) (minY b) (maxX b) (maxY b)) 4 28] @
                 (case pit of
                    None \<Rightarrow> []
                  | Some q \<Rightarrow>
                      [FillText (TxtPointer (ptr_x q) (ptr_y q) (tileX q) (tileY q)
                                   (ptr_X q) (ptr_Y q)) 4 42]) @
                 [Font ''12px sans-serif''];
          ypos = (case pit of None \<Rightarrow> 42 | Some q \<Rightarrow> 56)
      in case source_lines pit (tile_origin c) preparedTilemap ypos head of
           (ok, ypos1, ops) \<Rightarrow>
             if ok
             then (True, ops @ [Font ''600 10px sans-serif''] @
                         timing_lines paintingTime layoutTime ypos1 @ border_ops dbg)
             else (False, ops))"

definition draw :: "nat \<Rightarrow> ctx_op list \<Rightarrow> layer \<Rightarrow> layer" where
  "draw el ops w =
     w\<lparr>elements := (elements w)(el := (elements w el)\<lparr>el_ops := el_ops (elements w el) @ ops\<rparr>)\<rparr>"

definition set_size :: "nat \<Rightarrow> real \<Rightarrow> layer \<Rightarrow> layer" where
  "set_size el sz w =
     w\<lparr>elements := (elements w)(el := (elements w el)\<lparr>el_width := sz, el_height := sz\<rparr>)\<rparr>"

text \<open>Line 313: \<open>done()\<close>. The closure of \<open>createTile\<close> calls the host's \<open>showTile\<close>.\<close>

definition call_done :: "done_cb \<Rightarrow> layer \<Rightarrow> layer" where
  "call_done cb w =
     emit (DoneCalled cb # (case cb of NoOp \<Rightarrow> [] | ShowTile el \<Rightarrow> [TileReady el])) w"

definition paint_call :: "layer \<Rightarrow> coords \<Rightarrow> tilemap \<Rightarrow> nat list \<Rightarrow> paint_args" where
  "paint_call w c preparedTilemap labelData =
     \<lparr>pa_z = cz c, pa_tilemap = preparedTilemap,
      pa_labelData = (if xray w then None else Some labelData),
      pa_paintRules = paintRules w, pa_bbox = bboxWithBuffer c, pa_origin = tile_origin c,
      pa_clip = False, pa_debug = debug w,
      pa_pointer = (case pointerInTile (pointer w) (tile_bbox c) of
                      None \<Rightarrow> None | Some q \<Rightarrow> Some (ptr_x q, ptr_y q)),
      pa_pickedFeatures = pickedFeatures w\<rparr>"

text \<open>Lines 188 to 313: resumed when the timer has fired. \<open>P\<close> is the paint engine: from
  the arguments of the call it gives the elapsed time and the picked-feature accumulator
  as the call leaves it.\<close>

definition after_timer ::
  "(paint_args \<Rightarrow> real \<times> picked_feature list) \<Rightarrow> render \<Rightarrow> tilemap \<Rightarrow> real \<Rightarrow> nat list \<Rightarrow>
     layer \<Rightarrow> render \<times> layer" where
  "after_timer P t preparedTilemap layoutTime labelData w =
     (if stale t w then (finish t, w)
      else
        (let c = r_coords t;
             el = r_element t;
             w1 = set_size el (tileSize w) w
         in if \<not> el_has_ctx (elements w1 el)
            then (finish t, emit [ConsoleErrorMsg ''Failed to get Canvas context''] w1)
            else
              (let args = paint_call w1 c preparedTilemap labelData;
                   paintingTime = fst (P args);
                   w2 = draw el ([SetTransform (tileSize w1 / 256) 0 0 (tileSize w1 / 256) 0 0,
                                  ClearRect 0 0 256 256] @
                                 background_ops (backgroundColor w1) @ [Paint args])
                          (w1\<lparr>pickedFeatures := snd (P args)\<rparr>)
               in case truthy_str (debug w2) of
                    None \<Rightarrow> (finish t, call_done (r_done t) w2)
                  | Some dbg \<Rightarrow>
                      (case debug_overlay dbg c (pointerInTile (pointer w2) (tile_bbox c))
                              preparedTilemap paintingTime layoutTime of
                         (ok, ops) \<Rightarrow>
                           if ok then (finish t, call_done (r_done t) (draw el ops w2))
                           else (finish t, draw el ops w2)))))"

text \<open>Resuming a suspended invocation; a finished one does nothing more.\<close>

definition resume ::
  "(paint_args \<Rightarrow> real \<times> picked_feature list) \<Rightarrow> render \<Rightarrow> settlement \<Rightarrow> layer \<Rightarrow>
     render \<times> layer" where
  "resume P t s w =
     (case r_pc t of
        AwaitFetch ks \<Rightarrow> after_fetch t ks s w
      | AwaitTasks m \<Rightarrow> after_tasks t m w
      | AwaitLabelAdd m \<Rightarrow> after_add t m (s_layoutTime s) w
      | AwaitTimer m layoutTime labelData \<Rightarrow> after_timer P t m layoutTime labelData w
      | Finished \<Rightarrow> (t, w))"

subsection \<open>Tile lifecycle\<close>

text \<open>The methods of Leaflet's \<open>GridLayer\<close> that the layer calls on itself.\<close>

record gridlayer =
  tileCoordsToKey :: "coords \<Rightarrow> string"
  keyToTileCoords :: "string \<Rightarrow> coords"
  wrapCoords :: "coords \<Rightarrow> coords"

text \<open>\<open>createTile\<close>. The \<open>lang\<close> property of an element holds a string: assigning
  \<open>undefined\<close> stores the string \<open>undefined\<close>.\<close>

definition createTile :: "gridlayer \<Rightarrow> coords \<Rightarrow> layer \<Rightarrow> nat \<times> render \<times> layer" where
  "createTile h coords w =
     (let element = next_el w;
          key = tileCoordsToKey h coords;
          w1 = w\<lparr>next_el := Suc element,
                 elements := (elements w)(element :=
                   fresh_element\<lparr>el_classes := [''leaflet-tile''],
                                 el_lang := Some (case lang w of None \<Rightarrow> ''undefined''
                                                  | Some l \<Rightarrow> l),
                                 el_key := Some key\<rparr>)\<rparr>
      in (element, renderTile coords element key (ShowTile element) w1))"

fun rerenderTile_loop ::
  "gridlayer \<Rightarrow> string \<Rightarrow> (string \<times> nat) list \<Rightarrow> layer \<Rightarrow> render list \<times> layer" where
  "rerenderTile_loop h key [] w = ([], w)"
| "rerenderTile_loop h key ((unwrappedK, el) # rest) w =
     (let wrappedCoord = wrapCoords h (keyToTileCoords h unwrappedK)
      in if key = tileCoordsToKey h wrappedCoord
         then (case renderTile wrappedCoord el key NoOp w of
                 (t, w1) \<Rightarrow>
                   (case rerenderTile_loop h key rest w1 of (ts, w2) \<Rightarrow> (t # ts, w2)))
         else rerenderTile_loop h key rest w)"

definition rerenderTile :: "gridlayer \<Rightarrow> string \<Rightarrow> layer \<Rightarrow> render list \<times> layer" where
  "rerenderTile h key w = rerenderTile_loop h key (l_tiles w) w"

fun rerenderTiles_loop ::
  "gridlayer \<Rightarrow> (string \<times> nat) list \<Rightarrow> layer \<Rightarrow> render list \<times> layer" where
  "rerenderTiles_loop h [] w = ([], w)"
| "rerenderTiles_loop h ((unwrappedK, el) # rest) w =
     (let wrappedCoord = wrapCoords h (keyToTileCoords h unwrappedK);
          key = tileCoordsToKey h wrappedCoord
      in case renderTile wrappedCoord el key NoOp w of
           (t, w1) \<Rightarrow> (case rerenderTiles_loop h rest w1 of (ts, w2) \<Rightarrow> (t # ts, w2)))"

definition rerenderTiles :: "gridlayer \<Rightarrow> layer \<Rightarrow> render list \<times> layer" where
  "rerenderTiles h w = rerenderTiles_loop h (l_tiles w) w"

definition removeTile :: "gridlayer \<Rightarrow> string \<Rightarrow> layer \<Rightarrow> layer" where
  "removeTile h key w =
     (case map_of (l_tiles w) key of
        None \<Rightarrow> w
      | Some el \<Rightarrow>
          emit [FireTileUnload el (keyToTileCoords h key)]
            (w\<lparr>elements := (elements w)(el :=
                  (elements w el)\<lparr>el_removed := True, el_key := None,
                     el_classes := removeAll ''leaflet-tile-loaded'' (el_classes (elements w el)),
                     el_width := 0, el_height := 0, el_in_dom := False\<rparr>),
               l_tiles := AList.delete key (l_tiles w)\<rparr>))"

subsection \<open>The pick cycle\<close>

text \<open>\<open>_onLayerClick\<close>: \<open>redraw\<close> is the host's; \<open>setTimeout\<close> adds a pending callback that
  is due 1000 ms from now and keeps the event of this click.\<close>

definition onLayerClick :: "click_event \<Rightarrow> layer \<Rightarrow> js_error + layer" where
  "onLayerClick event w =
     (case getPointer w event of
        Inl e \<Rightarrow> Inl e
      | Inr p \<Rightarrow>
          Inr (emit [Redraw]
                 (w\<lparr>pointer := Some p, pickedFeatures := [],
                    timeouts := timeouts w @ [(clock w + 1000, event)]\<rparr>)))"

text \<open>The callback of the timeout (lines 437 to 443).\<close>

definition pick_timeout :: "click_event \<Rightarrow> layer \<Rightarrow> layer" where
  "pick_timeout event w =
     (emit (case pickedFeatures w of [] \<Rightarrow> [] | f # fs \<Rightarrow> [FireClick event (pf_feature f)]) w)
       \<lparr>pointer := None\<rparr>"

text \<open>Time passes until \<open>now\<close>: the callbacks that are due run, oldest first.\<close>

definition advance_to :: "nat \<Rightarrow> layer \<Rightarrow> layer" where
  "advance_to now w =
     fold (\<lambda>(due, event). pick_timeout event)
       (filter (\<lambda>(due, event). due \<le> now) (timeouts w))
       (w\<lparr>clock := max now (clock w),
          timeouts := filter (\<lambda>(due, event). \<not> due \<le> now) (timeouts w)\<rparr>)"

subsection \<open>Observations on the event list\<close>

text \<open>The elements for which the host's readiness callback \<open>showTile\<close> was called.\<close>

fun ready_signals :: "event list \<Rightarrow> nat list" where
  "ready_signals [] = []"
| "ready_signals (TileReady el # es) = el # ready_signals es"
| "ready_signals (e # es) = ready_signals es"

subsection \<open>Example values\<close>

text \<open>Leaflet's \<open>_tileCoordsToKey\<close>: \<open>x + ":" + y + ":" + z\<close>, with numbers in decimal.\<close>

function string_of_nat :: "nat \<Rightarrow> string" where
  "string_of_nat n =
     (if n < 10 then [''0123456789'' ! n]
      else string_of_nat (n div 10) @ [''0123456789'' ! (n mod 10)])"
  by pat_completeness auto
termination
  by (relation "measure id") auto

definition string_of_int :: "int \<Rightarrow> string" where
  "string_of_int i = (if i < 0 then CHR ''-'' # string_of_nat (nat (- i)) else string_of_nat (nat i))"

definition leaflet_key :: "coords \<Rightarrow> string" where
  "leaflet_key c = string_of_int (cx c) @ '':'' @ string_of_int (cy c) @ '':'' @ string_of_int (cz c)"

definition demo_coords :: coords where
  "demo_coords = \<lparr>cx = 0, cy = 0, cz = 0\<rparr>"

text \<open>A grid without wrapping that knows the key of the one tile of zoom 0.\<close>

definition demo_grid :: gridlayer where
  "demo_grid = \<lparr>tileCoordsToKey = leaflet_key, keyToTileCoords = (\<lambda>k. demo_coords),
     wrapCoords = (\<lambda>c. c)\<rparr>"

definition demo_ext :: externals where
  "demo_ext = \<lparr>devicePixelRatio = 1, themes = (\<lambda>n. None), style_paintRules = (\<lambda>t. []),
     style_labelRules = (\<lambda>t. []), sourcesToViews = opt_sources\<rparr>"

definition demo_options :: options where
  "demo_options = \<lparr>opt_bounds = None, opt_attribution = None, opt_debug = None, opt_lang = None,
     opt_tileDelay = None, opt_noWrap = None, opt_paintRules = None, opt_labelRules = None,
     opt_tasks = None, opt_theme = None, opt_backgroundColor = None,
     opt_sources = [''a'', ''b'']\<rparr>"

definition demo_map :: host_map where
  "demo_map = \<lparr>map_zoom = 0, map_tileCenter = (0, 0)\<rparr>"

text \<open>A layer with two sources, added to a map at zoom 0.\<close>

definition demo_layer :: layer where
  "demo_layer = (init_layer demo_ext demo_options [] [] None)\<lparr>l_map := Some demo_map\<rparr>"

definition demo_tile :: prepared_tile where
  "demo_tile = \<lparr>pt_dataTile = demo_coords, pt_dim = 1024, pt_origin = (0, 0), pt_content = 7\<rparr>"

text \<open>Source \<open>a\<close> delivers a tile, source \<open>b\<close> fails with an error that is not an abort.\<close>

definition demo_settlement :: settlement where
  "demo_settlement =
     \<lparr>s_fetched = (\<lambda>k. if k = ''a'' then Fulfilled demo_tile
                        else Rejected \<lparr>err_name = ''Error'', err_message = ''fetch failed''\<rparr>),
      s_layoutTime = 0\<rparr>"

text \<open>A paint engine that takes no time and picks nothing.\<close>

definition demo_paint :: "paint_args \<Rightarrow> real \<times> picked_feature list" where
  "demo_paint args = (0, pa_pickedFeatures args)"

text \<open>The render started by \<open>createTile\<close> on the demo layer, and the layer after the call.\<close>

definition demo_render :: render where
  "demo_render = fst (snd (createTile demo_grid demo_coords demo_layer))"

definition demo_created :: layer where
  "demo_created = snd (snd (createTile demo_grid demo_coords demo_layer))"

definition demo_click :: click_event where
  "demo_click = \<lparr>ev_lat = 0, ev_lng = 0, ev_id = 1\<rparr>"

text \<open>The demo render run through its four resumptions with nothing interfering.\<close>

definition demo_run1 :: "render \<times> layer" where
  "demo_run1 = resume demo_paint demo_render demo_settlement demo_created"

definition demo_run2 :: "render \<times> layer" where
  "demo_run2 = resume demo_paint (fst demo_run1) demo_settlement (snd demo_run1)"

definition demo_run3 :: "render \<times> layer" where
  "demo_run3 = resume demo_paint (fst demo_run2) demo_settlement (snd demo_run2)"

definition demo_run4 :: "render \<times> layer" where
  "demo_run4 = resume demo_paint (fst demo_run3) demo_settlement (snd demo_run3)"

text \<open>The same run on a canvas whose \<open>getContext("2d")\<close> gives \<open>null\<close>.\<close>

definition demo_noctx :: layer where
  "demo_noctx =
     demo_created\<lparr>elements := (elements demo_created)(0 := (elements demo_created 0)\<lparr>el_has_ctx := False\<rparr>)\<rparr>"

definition noctx_run1 :: "render \<times> layer" where
  "noctx_run1 = resume demo_paint demo_render demo_settlement demo_noctx"

definition noctx_run2 :: "render \<times> layer" where
  "noctx_run2 = resume demo_paint (fst noctx_run1) demo_settlement (snd noctx_run1)"

definition noctx_run3 :: "render \<times> layer" where
  "noctx_run3 = resume demo_paint (fst noctx_run2) demo_settlement (snd noctx_run2)"

definition noctx_run4 :: "render \<times> layer" where
  "noctx_run4 = resume demo_paint (fst noctx_run3) demo_settlement (snd noctx_run3)"

text \<open>The same run on a layer that is on no map.\<close>

definition demo_detached :: layer where
  "demo_detached = demo_created\<lparr>l_map := None\<rparr>"

definition detached_run1 :: "render \<times> layer" where
  "detached_run1 = resume demo_paint demo_render demo_settlement demo_detached"

definition detached_run2 :: "render \<times> layer" where
  "detached_run2 = resume demo_paint (fst detached_run1) demo_settlement (snd detached_run1)"

definition detached_run3 :: "render \<times> layer" where
  "detached_run3 = resume demo_paint (fst detached_run2) demo_settlement (snd detached_run2)"

text \<open>The host has stored the created tile in \<open>_tiles\<close> under its key; then the tile is
  removed before the render is resumed.\<close>

definition demo_tracked :: layer where
  "demo_tracked = demo_created\<lparr>l_tiles := [(leaflet_key demo_coords, 0)]\<rparr>"

definition demo_removed :: layer where
  "demo_removed = removeTile demo_grid (leaflet_key demo_coords) demo_tracked"

text \<open>A second tile created for the same coordinates.\<close>

definition demo_second :: "nat \<times> render \<times> layer" where
  "demo_second = createTile demo_grid demo_coords demo_created"

text \<open>Two clicks, 500 ms apart; the paint after the second click picks a feature.\<close>

definition demo_click2 :: click_event where
  "demo_click2 = \<lparr>ev_lat = 0, ev_lng = 0, ev_id = 2\<rparr>"

definition demo_pointer :: Pointer where
  "demo_pointer = \<lparr>ptr_x = 128, ptr_y = 128, tileX = 0, tileY = 0, ptr_X = 128, ptr_Y = 128\<rparr>"

definition demo_clicked1 :: layer where
  "demo_clicked1 =
     emit [Redraw] (demo_layer\<lparr>pointer := Some demo_pointer, pickedFeatures := [],
                               timeouts := [(1000, demo_click)]\<rparr>)"

definition demo_clicked2 :: layer where
  "demo_clicked2 =
     emit [Redraw] ((advance_to 500 demo_clicked1)
                      \<lparr>pointer := Some demo_pointer, pickedFeatures := [],
                       timeouts := [(1000, demo_click), (1500, demo_click2)]\<rparr>)"

definition demo_picked :: layer where
  "demo_picked = demo_clicked2\<lparr>pickedFeatures := [\<lparr>pf_feature = 9, pf_layerName = ''roads''\<rparr>]\<rparr>"

text \<open>The demo layer on a map at zoom 2, and a click at longitude 45 on the equator.\<close>

definition demo_layer_z2 :: layer where
  "demo_layer_z2 = demo_layer\<lparr>l_map := Some \<lparr>map_zoom = 2, map_tileCenter = (0, 0)\<rparr>\<rparr>"

definition demo_click_east :: click_event where
  "demo_click_east = \<lparr>ev_lat = 0, ev_lng = 45, ev_id = 3\<rparr>"

section \<open>Properties\<close>

subsection \<open>Basic facts about the model\<close>

lemma stale_emit [simp]: "stale t (emit es w) = stale t w"
  by (simp add: stale_def emit_def)

lemma elements_emit [simp]: "elements (emit es w) = elements w"
  by (simp add: emit_def)

lemma events_emit [simp]: "events (emit es w) = events w @ es"
  by (simp add: emit_def)

lemma emit_Nil [simp]: "emit [] w = w"
  by (simp add: emit_def)

lemma stale_finish [simp]: "stale (finish t) w = stale t w"
  by (simp add: stale_def finish_def)

lemma r_pc_finish [simp]: "r_pc (finish t) = Finished"
  by (simp add: finish_def)

lemma resume_finished: "r_pc t = Finished \<Longrightarrow> resume P t s w = (t, w)"
  by (simp add: resume_def)

lemma resume_stale:
  "stale t w \<Longrightarrow> resume P t s w =
     (case r_pc t of
        AwaitFetch ks \<Rightarrow>
          (finish t, emit (map ConsoleError (logged_reasons (tileResponses ks (s_fetched s)))) w)
      | Finished \<Rightarrow> (t, w)
      | _ \<Rightarrow> (finish t, w))"
  by (simp add: resume_def after_fetch_def after_tasks_def after_add_def after_timer_def Let_def
      split: pc.splits)

lemma demo_render_eq:
  "demo_render = \<lparr>r_coords = demo_coords, r_element = 0, r_key = leaflet_key demo_coords,
     r_done = ShowTile 0, r_pc = AwaitFetch [''a'', ''b'']\<rparr>"
  by (simp add: demo_render_def createTile_def renderTile_def Let_def demo_layer_def
      init_layer_def demo_grid_def demo_ext_def demo_options_def)

lemma demo_created_key:
  "el_key (elements demo_created 0) = Some (leaflet_key demo_coords)"
  by (simp add: demo_created_def createTile_def renderTile_def Let_def demo_layer_def
      init_layer_def demo_grid_def)

lemma demo_created_z: "lastRequestedZ demo_created = Some 0"
  by (simp add: demo_created_def createTile_def renderTile_def Let_def demo_coords_def emit_def)

subsection \<open>Staleness gates\<close>

text \<open>
  Claim C1. Whenever an invocation of \<open>renderTile\<close> is resumed at one of its suspension
  points (the fetch barrier, the barrier of the auxiliary tasks, the return of
  \<open>labelers.add\<close>, the timer) and finds \<open>element.key\<close> different from its \<open>key\<close> or
  \<open>lastRequestedZ\<close> different from \<open>coords.z\<close>, it returns: the invocation is finished,
  the layer is left as it was found except for console output of the fetch loop (so no
  canvas is touched, \<open>done\<close> is not called, no label retrieval, timer, paint or overlay
  happens), and resuming the finished invocation again does nothing.
\<close>

theorem renderTile_stale_gate:
  assumes "r_pc t \<noteq> Finished" and "stale t w"
  shows "r_pc (fst (resume P t s w)) = Finished \<and>
         snd (resume P t s w) =
           emit (map ConsoleError
                  (case r_pc t of
                     AwaitFetch ks \<Rightarrow> logged_reasons (tileResponses ks (s_fetched s))
                   | _ \<Rightarrow> [])) w \<and>
         elements (snd (resume P t s w)) = elements w \<and>
         resume P (fst (resume P t s w)) s' w' = (fst (resume P t s w), w')"
  using assms by (cases "r_pc t") (simp_all add: resume_stale resume_finished)

theorem renderTile_stale_gate_witness:
  "r_pc demo_render \<noteq> Finished \<and>
   stale demo_render (demo_created\<lparr>lastRequestedZ := Some 1\<rparr>) \<and>
   r_pc (fst (resume demo_paint demo_render demo_settlement
                (demo_created\<lparr>lastRequestedZ := Some 1\<rparr>))) = Finished \<and>
   elements (snd (resume demo_paint demo_render demo_settlement
                (demo_created\<lparr>lastRequestedZ := Some 1\<rparr>))) = elements demo_created"
proof -
  have a: "r_pc demo_render \<noteq> Finished"
    by (simp add: demo_render_eq)
  have b: "stale demo_render (demo_created\<lparr>lastRequestedZ := Some 1\<rparr>)"
    by (simp add: stale_def demo_render_eq demo_coords_def)
  show ?thesis
    using a b renderTile_stale_gate [OF a b, of demo_paint demo_settlement]
    by simp
qed

subsection \<open>The constructor's delay factor\<close>

lemma super_options_tileDelay: "opt_tileDelay (super_options options) = opt_tileDelay options"
  by (simp add: super_options_def Let_def)

lemma init_layer_tileDelay:
  "tileDelay (init_layer ext options pr lr bg) =
     (case truthy_num (opt_tileDelay options) of None \<Rightarrow> 3 | Some v \<Rightarrow> v)"
  by (simp add: init_layer_def)

lemma LeafletLayer_init:
  "LeafletLayer ext options = Inr l \<Longrightarrow>
   \<exists>pr lr bg. l = init_layer ext (super_options options) pr lr bg"
  by (auto simp: LeafletLayer_def Let_def split: option.splits)

lemma LeafletLayer_tileDelay:
  assumes "LeafletLayer ext options = Inr l"
  shows "tileDelay l = (case truthy_num (opt_tileDelay options) of None \<Rightarrow> 3 | Some v \<Rightarrow> v)"
proof -
  from LeafletLayer_init [OF assms] obtain pr lr bg
    where "l = init_layer ext (super_options options) pr lr bg" by blast
  then show ?thesis
    by (simp add: init_layer_tileDelay super_options_tileDelay)
qed

text \<open>
  Claim C9. When the options give \<open>tileDelay\<close> as 0, the constructed layer's delay
  factor is 3, the same as for options without \<open>tileDelay\<close>: \<open>options.tileDelay || 3\<close>
  takes 0 for absent, so a delay factor of zero cannot be configured.
\<close>

theorem tileDelay_zero_is_default:
  "(LeafletLayer ext (options\<lparr>opt_tileDelay := Some 0\<rparr>) = Inr l \<longrightarrow> tileDelay l = 3) \<and>
   (LeafletLayer ext (options\<lparr>opt_tileDelay := None\<rparr>) = Inr l' \<longrightarrow> tileDelay l' = 3)"
proof -
  have "tileDelay l = 3" if "LeafletLayer ext (options\<lparr>opt_tileDelay := Some 0\<rparr>) = Inr l"
    using LeafletLayer_tileDelay [OF that] by (simp add: truthy_num_def)
  moreover have "tileDelay l' = 3" if "LeafletLayer ext (options\<lparr>opt_tileDelay := None\<rparr>) = Inr l'"
    using LeafletLayer_tileDelay [OF that] by (simp add: truthy_num_def)
  ultimately show ?thesis by blast
qed

theorem tileDelay_zero_is_default_witness:
  "LeafletLayer demo_ext (demo_options\<lparr>opt_tileDelay := Some 0\<rparr>) =
     Inr (init_layer demo_ext (super_options (demo_options\<lparr>opt_tileDelay := Some 0\<rparr>)) [] [] None) \<and>
   tileDelay (init_layer demo_ext (super_options (demo_options\<lparr>opt_tileDelay := Some 0\<rparr>)) [] [] None) = 3 \<and>
   LeafletLayer demo_ext (demo_options\<lparr>opt_tileDelay := None\<rparr>) =
     Inr (init_layer demo_ext (super_options (demo_options\<lparr>opt_tileDelay := None\<rparr>)) [] [] None) \<and>
   tileDelay (init_layer demo_ext (super_options (demo_options\<lparr>opt_tileDelay := None\<rparr>)) [] [] None) = 3"
proof -
  have a: "LeafletLayer demo_ext (demo_options\<lparr>opt_tileDelay := Some 0\<rparr>) =
     Inr (init_layer demo_ext (super_options (demo_options\<lparr>opt_tileDelay := Some 0\<rparr>)) [] [] None)"
    by (simp add: LeafletLayer_def demo_options_def super_options_def truthy_str_def Let_def)
  have b: "LeafletLayer demo_ext (demo_options\<lparr>opt_tileDelay := None\<rparr>) =
     Inr (init_layer demo_ext (super_options (demo_options\<lparr>opt_tileDelay := None\<rparr>)) [] [] None)"
    by (simp add: LeafletLayer_def demo_options_def super_options_def truthy_str_def Let_def)
  show ?thesis
    using a b
      tileDelay_zero_is_default [where ext = demo_ext and options = demo_options
        and l = "init_layer demo_ext (super_options (demo_options\<lparr>opt_tileDelay := Some 0\<rparr>)) [] [] None"
        and l' = "init_layer demo_ext (super_options (demo_options\<lparr>opt_tileDelay := None\<rparr>)) [] [] None"]
    by simp
qed

subsection \<open>The priority delay\<close>

lemma emit_emit: "emit es (emit es' w) = emit (es' @ es) w"
  by (simp add: emit_def)

lemma after_add_fresh:
  assumes "\<not> stale t w" and "l_map w = Some m"
  shows "after_add t tm lt w =
           (t\<lparr>r_pc := AwaitTimer tm lt (label_index w (cz (r_coords t)))\<rparr>,
            emit [LabelersGetIndex (cz (r_coords t)),
                  SetTimer (priority w (r_coords t) (map_tileCenter m))] w)"
  using assms by (simp add: after_add_def Let_def emit_def priority_def)

text \<open>
  Claim C4. The delay that \<open>renderTile\<close> hands to the timer is the Euclidean distance
  in the tile grid between the tile coordinate and the centre of the tile range, times the
  layer's delay factor. For a delay factor that is not negative the delay is not negative,
  does not decrease when the distance grows, and is zero at distance zero.
\<close>

theorem priority_delay:
  assumes "0 \<le> tileDelay w"
  shows "priority w c p =
           sqrt ((fst p - of_int (cx c))\<^sup>2 + (snd p - of_int (cy c))\<^sup>2) * tileDelay w \<and>
         priority w c p = distanceTo c p * tileDelay w \<and>
         0 \<le> priority w c p \<and>
         (distanceTo c p \<le> distanceTo c' p' \<longrightarrow> priority w c p \<le> priority w c' p') \<and>
         (distanceTo c p = 0 \<longrightarrow> priority w c p = 0) \<and>
         (\<not> stale t w \<and> l_map w = Some m \<longrightarrow>
            snd (resume P (t\<lparr>r_pc := AwaitLabelAdd tm\<rparr>) s w) =
              emit [LabelersGetIndex (cz (r_coords t)),
                    SetTimer (priority w (r_coords t) (map_tileCenter m))] w)"
proof -
  have "0 \<le> distanceTo c p"
    by (simp add: distanceTo_def)
  then have "0 \<le> priority w c p"
    using assms by (simp add: priority_def)
  moreover have "distanceTo c p \<le> distanceTo c' p' \<longrightarrow> priority w c p \<le> priority w c' p'"
    using assms by (simp add: priority_def mult_right_mono)
  moreover have "\<not> stale t w \<and> l_map w = Some m \<longrightarrow>
            snd (resume P (t\<lparr>r_pc := AwaitLabelAdd tm\<rparr>) s w) =
              emit [LabelersGetIndex (cz (r_coords t)),
                    SetTimer (priority w (r_coords t) (map_tileCenter m))] w"
  proof
    assume h: "\<not> stale t w \<and> l_map w = Some m"
    then have "\<not> stale (t\<lparr>r_pc := AwaitLabelAdd tm\<rparr>) w"
      by (simp add: stale_def)
    then show "snd (resume P (t\<lparr>r_pc := AwaitLabelAdd tm\<rparr>) s w) =
              emit [LabelersGetIndex (cz (r_coords t)),
                    SetTimer (priority w (r_coords t) (map_tileCenter m))] w"
      using h by (simp add: resume_def after_add_fresh)
  qed
  ultimately show ?thesis
    by (simp add: priority_def distanceTo_def)
qed

lemma demo_created_fresh: "\<not> stale demo_render demo_created"
  by (simp add: stale_def demo_render_eq demo_created_key demo_created_z demo_coords_def)

lemma demo_created_map: "l_map demo_created = Some demo_map"
  by (simp add: demo_created_def createTile_def renderTile_def Let_def emit_def demo_layer_def)

lemma demo_created_tileDelay: "tileDelay demo_created = 3"
  by (simp add: demo_created_def createTile_def renderTile_def Let_def emit_def demo_layer_def
      init_layer_def demo_options_def truthy_num_def)

theorem priority_delay_witness:
  "0 \<le> tileDelay demo_created \<and>
   distanceTo demo_coords (0, 0) \<le> distanceTo \<lparr>cx = 3, cy = 4, cz = 0\<rparr> (0, 0) \<and>
   distanceTo demo_coords (0, 0) = 0 \<and>
   \<not> stale demo_render demo_created \<and> l_map demo_created = Some demo_map \<and>
   priority demo_created demo_coords (0, 0) = 0 \<and>
   priority demo_created demo_coords (0, 0) \<le> priority demo_created \<lparr>cx = 3, cy = 4, cz = 0\<rparr> (0, 0) \<and>
   snd (resume demo_paint (demo_render\<lparr>r_pc := AwaitLabelAdd []\<rparr>) demo_settlement demo_created) =
     emit [LabelersGetIndex 0, SetTimer 0] demo_created"
proof -
  have a: "0 \<le> tileDelay demo_created"
    by (simp add: demo_created_tileDelay)
  have d0: "distanceTo demo_coords (0, 0) = 0"
    by (simp add: distanceTo_def demo_coords_def)
  have d1: "distanceTo demo_coords (0, 0) \<le> distanceTo \<lparr>cx = 3, cy = 4, cz = 0\<rparr> (0, 0)"
    by (simp add: distanceTo_def demo_coords_def)
  have c: "r_coords demo_render = demo_coords"
    by (simp add: demo_render_eq)
  show ?thesis
    using a d0 d1 demo_created_fresh demo_created_map c
      priority_delay [OF a, of demo_coords "(0, 0)" "\<lparr>cx = 3, cy = 4, cz = 0\<rparr>" "(0, 0)"
        demo_render demo_map demo_paint "[]" demo_settlement]
    by (simp add: demo_map_def demo_coords_def)
qed

subsection \<open>The pointer projector\<close>

lemma shl1_pow:
  assumes "0 \<le> z" and "z < 31"
  shows "shl1 z = 2 ^ nat z"
proof -
  have n: "nat (z mod 32) = nat z"
    using assms by simp
  have lt: "nat z < 31"
    using assms by simp
  have w: "push_bit (nat z) (1 :: 32 word) = word_of_int (2 ^ nat z)"
    by (simp add: word_of_int_2p)
  have b: "(2 :: int) ^ nat z < 2 ^ 31"
    by (rule power_strict_increasing) (use lt in simp_all)
  have a: "- (2 ^ 31) \<le> (2 :: int) ^ nat z"
    by (rule order_trans [of _ 0]) simp_all
  have "signed_take_bit 31 ((2 :: int) ^ nat z) = 2 ^ nat z"
    using a b by (rule signed_take_bit_int_eq_self)
  then have "sint (word_of_int (2 ^ nat z) :: 32 word) = 2 ^ nat z"
    by (simp only: sint_sbintrunc') simp
  then show ?thesis
    by (simp only: shl1_def n w)
qed

text \<open>
  Claim C10. Every pointer that \<open>_getPointer\<close> returns has \<open>X = tileX * tileSize + x\<close>
  and \<open>Y = tileY * tileSize + y\<close>, where \<open>tileX\<close> and \<open>tileY\<close> are the floors of the
  normalized coordinates multiplied by \<open>1 << zoom\<close> (which is \<open>2 ^ zoom\<close> for a zoom from
  0 to 30), \<open>x\<close> and \<open>y\<close> are the fractional parts of those scaled coordinates times the
  tile size, and (the tile size being positive, as 256 times a device pixel ratio is)
  \<open>x\<close> and \<open>y\<close> lie in \<open>[0, tileSize)\<close>.
\<close>

theorem getPointer_invariant:
  assumes "getPointer w ev = Inr p" and "l_map w = Some m" and "0 < tileSize w"
  shows "ptr_X p = of_int (tileX p) * tileSize w + ptr_x p \<and>
         ptr_Y p = of_int (tileY p) * tileSize w + ptr_y p \<and>
         tileX p = \<lfloor>fst (onZoom (map_zoom m) (ev_lat ev, ev_lng ev))\<rfloor> \<and>
         tileY p = \<lfloor>snd (onZoom (map_zoom m) (ev_lat ev, ev_lng ev))\<rfloor> \<and>
         0 \<le> ptr_x p \<and> ptr_x p < tileSize w \<and> 0 \<le> ptr_y p \<and> ptr_y p < tileSize w \<and>
         tileX p = \<lfloor>fst (normalized (ev_lat ev, ev_lng ev)) * of_int (shl1 (map_zoom m))\<rfloor> \<and>
         tileY p = \<lfloor>snd (normalized (ev_lat ev, ev_lng ev)) * of_int (shl1 (map_zoom m))\<rfloor> \<and>
         ptr_x p = (fst (normalized (ev_lat ev, ev_lng ev)) * of_int (shl1 (map_zoom m))
                     - of_int (tileX p)) * tileSize w \<and>
         ptr_y p = (snd (normalized (ev_lat ev, ev_lng ev)) * of_int (shl1 (map_zoom m))
                     - of_int (tileY p)) * tileSize w \<and>
         (0 \<le> map_zoom m \<and> map_zoom m < 31 \<longrightarrow>
            tileX p = \<lfloor>fst (normalized (ev_lat ev, ev_lng ev)) * 2 ^ nat (map_zoom m)\<rfloor> \<and>
            tileY p = \<lfloor>snd (normalized (ev_lat ev, ev_lng ev)) * 2 ^ nat (map_zoom m)\<rfloor>)"
proof -
  let ?oz = "onZoom (map_zoom m) (ev_lat ev, ev_lng ev)"
  let ?n = "normalized (ev_lat ev, ev_lng ev)"
  have p: "p = \<lparr>ptr_x = (fst ?oz - of_int \<lfloor>fst ?oz\<rfloor>) * tileSize w,
                ptr_y = (snd ?oz - of_int \<lfloor>snd ?oz\<rfloor>) * tileSize w,
                tileX = \<lfloor>fst ?oz\<rfloor>, tileY = \<lfloor>snd ?oz\<rfloor>,
                ptr_X = of_int \<lfloor>fst ?oz\<rfloor> * tileSize w + (fst ?oz - of_int \<lfloor>fst ?oz\<rfloor>) * tileSize w,
                ptr_Y = of_int \<lfloor>snd ?oz\<rfloor> * tileSize w + (snd ?oz - of_int \<lfloor>snd ?oz\<rfloor>) * tileSize w\<rparr>"
    using assms(1,2) by (simp add: getPointer_def Let_def)
  have oz: "fst ?oz = fst ?n * of_int (shl1 (map_zoom m))"
      "snd ?oz = snd ?n * of_int (shl1 (map_zoom m))"
    by (simp_all add: onZoom_def)
  have fx: "0 \<le> fst ?oz - of_int \<lfloor>fst ?oz\<rfloor>" "fst ?oz - of_int \<lfloor>fst ?oz\<rfloor> < 1"
    by linarith+
  have fy: "0 \<le> snd ?oz - of_int \<lfloor>snd ?oz\<rfloor>" "snd ?oz - of_int \<lfloor>snd ?oz\<rfloor> < 1"
    by linarith+
  have bx: "(fst ?oz - of_int \<lfloor>fst ?oz\<rfloor>) * tileSize w < 1 * tileSize w"
    using fx(2) assms(3) by (rule mult_strict_right_mono)
  have "(snd ?oz - of_int \<lfloor>snd ?oz\<rfloor>) * tileSize w < 1 * tileSize w"
    using fy(2) assms(3) by (rule mult_strict_right_mono)
  with bx have first: "ptr_X p = of_int (tileX p) * tileSize w + ptr_x p \<and>
         ptr_Y p = of_int (tileY p) * tileSize w + ptr_y p \<and>
         tileX p = \<lfloor>fst ?oz\<rfloor> \<and> tileY p = \<lfloor>snd ?oz\<rfloor> \<and>
         0 \<le> ptr_x p \<and> ptr_x p < tileSize w \<and> 0 \<le> ptr_y p \<and> ptr_y p < tileSize w"
    using fx(1) fy(1) assms(3) by (simp add: p)
  have second: "tileX p = \<lfloor>fst ?n * of_int (shl1 (map_zoom m))\<rfloor>"
      "tileY p = \<lfloor>snd ?n * of_int (shl1 (map_zoom m))\<rfloor>"
      "ptr_x p = (fst ?n * of_int (shl1 (map_zoom m)) - of_int (tileX p)) * tileSize w"
      "ptr_y p = (snd ?n * of_int (shl1 (map_zoom m)) - of_int (tileY p)) * tileSize w"
    by (simp_all add: p oz)
  have third: "tileX p = \<lfloor>fst ?n * 2 ^ nat (map_zoom m)\<rfloor> \<and>
      tileY p = \<lfloor>snd ?n * 2 ^ nat (map_zoom m)\<rfloor>"
    if "0 \<le> map_zoom m \<and> map_zoom m < 31"
    using that second(1,2) by (simp add: shl1_pow)
  from first second third show ?thesis
    by blast
qed

lemma normalized_origin: "normalized (0, 0) = (1 / 2, 1 / 2)"
  by (simp add: normalized_def project_def Let_def MAXCOORD_def R_def MAX_LATITUDE_def)

lemma normalized_east: "normalized (0, 45) = (5 / 8, 1 / 2)"
  by (simp add: normalized_def project_def Let_def MAXCOORD_def R_def MAX_LATITUDE_def
      field_simps)

lemma shl1_0: "shl1 0 = 1"
  by (simp add: shl1_def)

lemma shl1_2: "shl1 2 = 4"
  by (simp add: shl1_def)

lemma demo_layer_tileSize: "tileSize demo_layer = 256"
  by (simp add: demo_layer_def init_layer_def demo_ext_def)

lemma demo_layer_map: "l_map demo_layer = Some demo_map"
  by (simp add: demo_layer_def)

lemma getPointer_demo_click:
  "getPointer demo_layer demo_click =
     Inr \<lparr>ptr_x = 128, ptr_y = 128, tileX = 0, tileY = 0, ptr_X = 128, ptr_Y = 128\<rparr>"
  by (simp add: getPointer_def demo_layer_map demo_layer_tileSize demo_map_def demo_click_def
      onZoom_def normalized_origin shl1_0 Let_def)

lemma demo_layer_z2_fields:
  "l_map demo_layer_z2 = Some \<lparr>map_zoom = 2, map_tileCenter = (0, 0)\<rparr>"
  "tileSize demo_layer_z2 = 256"
  by (simp_all add: demo_layer_z2_def demo_layer_tileSize)

lemma getPointer_demo_click_east:
  "getPointer demo_layer_z2 demo_click_east =
     Inr \<lparr>ptr_x = 128, ptr_y = 0, tileX = 2, tileY = 2, ptr_X = 640, ptr_Y = 512\<rparr>"
  by (simp add: getPointer_def demo_layer_z2_fields demo_click_east_def
      onZoom_def normalized_east shl1_2 Let_def)

theorem getPointer_invariant_witness:
  "getPointer demo_layer_z2 demo_click_east =
     Inr \<lparr>ptr_x = 128, ptr_y = 0, tileX = 2, tileY = 2, ptr_X = 640, ptr_Y = 512\<rparr> \<and>
   l_map demo_layer_z2 = Some \<lparr>map_zoom = 2, map_tileCenter = (0, 0)\<rparr> \<and>
   0 < tileSize demo_layer_z2 \<and> (0 :: int) \<le> 2 \<and> (2 :: int) < 31 \<and>
   normalized (0, 45) = (5 / 8, 1 / 2) \<and> shl1 2 = 4 \<and>
   (2 :: int) = \<lfloor>fst (normalized (0, 45)) * of_int (shl1 2)\<rfloor> \<and>
   (2 :: int) = \<lfloor>fst (normalized (0, 45)) * 2 ^ nat 2\<rfloor> \<and>
   (128 :: real) = (fst (normalized (0, 45)) * of_int (shl1 2) - of_int 2) * tileSize demo_layer_z2"
proof -
  have a: "0 < tileSize demo_layer_z2"
    by (simp add: demo_layer_z2_fields)
  have e: "ev_lat demo_click_east = 0" "ev_lng demo_click_east = 45"
    by (simp_all add: demo_click_east_def)
  show ?thesis
    using a normalized_east shl1_2
      getPointer_invariant [OF getPointer_demo_click_east demo_layer_z2_fields(1) a]
    by (simp add: getPointer_demo_click_east demo_layer_z2_fields e)
qed

text \<open>
  Claim C5 says that the projector wraps the longitude axis into \<open>[0, 1)\<close>. The code wraps
  only normalized values above 1: a click west of the antimeridian (longitude -190, as the
  host reports it on a world copy) keeps a negative normalized \<open>x\<close>, and at zoom 0 lands
  in tile column -1 with a negative global \<open>X\<close>; longitude 180 gives exactly 1, column 1
  of a grid that has only column 0. A click as far east (longitude 190) is wrapped.
\<close>

theorem getPointer_west_of_antimeridian:
  "normalized (0, - 190) = (- 1 / 36, 1 / 2) \<and>
   getPointer demo_layer \<lparr>ev_lat = 0, ev_lng = - 190, ev_id = 1\<rparr> =
     Inr \<lparr>ptr_x = 2240 / 9, ptr_y = 128, tileX = - 1, tileY = 0, ptr_X = - 64 / 9, ptr_Y = 128\<rparr> \<and>
   normalized (0, 180) = (1, 1 / 2) \<and>
   normalized (0, 190) = (1 / 36, 1 / 2)"
proof -
  have w: "normalized (0, - 190) = (- 1 / 36, 1 / 2)"
    by (simp add: normalized_def project_def Let_def MAXCOORD_def R_def MAX_LATITUDE_def
        field_simps)
  have e: "normalized (0, 180) = (1, 1 / 2)"
    by (simp add: normalized_def project_def Let_def MAXCOORD_def R_def MAX_LATITUDE_def
        field_simps)
  have "((6378137 * 190 * (pi / 180) + 6378137 * pi) / (6378137 * pi * 2) :: real) = 37 / 36"
    by (simp add: field_simps)
  then have e2: "normalized (0, 190) = (1 / 36, 1 / 2)"
    by (simp add: normalized_def project_def Let_def MAXCOORD_def R_def MAX_LATITUDE_def)
  have "getPointer demo_layer \<lparr>ev_lat = 0, ev_lng = - 190, ev_id = 1\<rparr> =
     Inr \<lparr>ptr_x = 2240 / 9, ptr_y = 128, tileX = - 1, tileY = 0, ptr_X = - 64 / 9, ptr_Y = 128\<rparr>"
    by (simp add: getPointer_def demo_layer_map demo_layer_tileSize demo_map_def
        onZoom_def w shl1_0 Let_def)
  with w e e2 show ?thesis by simp
qed

subsection \<open>The paint stage\<close>

lemma paint_call_set_size [simp]: "paint_call (set_size el sz w) c tm ld = paint_call w c tm ld"
  by (simp add: paint_call_def set_size_def)

lemma source_lines_ok:
  "\<forall>(k, v)\<in>set tm. v \<noteq> [] \<Longrightarrow> fst (source_lines pit orig tm y ops)"
proof (induction tm arbitrary: y ops)
  case Nil
  then show ?case by simp
next
  case (Cons e tm)
  obtain k v where e: "e = (k, v)" by (cases e)
  with Cons.prems obtain v0 vs where v: "v = v0 # vs" by (cases v) auto
  from Cons.prems have "\<forall>(k, v)\<in>set tm. v \<noteq> []" by simp
  then show ?case
    using Cons.IH by (cases pit) (simp_all add: e v Let_def)
qed

lemma source_lines_extends:
  "\<exists>rest. snd (snd (source_lines pit orig tm y ops)) = ops @ rest"
proof (induction tm arbitrary: y ops)
  case Nil
  then show ?case by simp
next
  case (Cons e tm)
  obtain k v where e: "e = (k, v)" by (cases e)
  show ?case
  proof (cases v)
    case Nil
    then show ?thesis by (simp add: e)
  next
    case (Cons v0 vs)
    let ?ops1 = "ops @ [FillText (TxtSourceTile k (cz (pt_dataTile v0)) (cx (pt_dataTile v0))
                          (cy (pt_dataTile v0))) 4 y,
                        FillText (TxtSourceBBox (fst (pt_origin v0)) (snd (pt_origin v0))
                          (fst (pt_origin v0) + pt_dim v0) (snd (pt_origin v0) + pt_dim v0))
                          4 (y + 14)]"
    show ?thesis
    proof (cases pit)
      case None
      from Cons.IH [of "y + 28" ?ops1] obtain rest
        where "snd (snd (source_lines pit orig tm (y + 28) ?ops1)) = ?ops1 @ rest" ..
      then show ?thesis
        by (simp add: e Cons None Let_def)
    next
      case (Some q)
      let ?ops2 = "?ops1 @ [FillText (TxtSourcePointer
                     (of_int (fst orig) + ptr_x q - fst (pt_origin v0))
                     (of_int (snd orig) + ptr_y q - snd (pt_origin v0))
                     (cx (pt_dataTile v0)) (cy (pt_dataTile v0))) 4 (y + 28)]"
      from Cons.IH [of "y + 42" ?ops2] obtain rest
        where "snd (snd (source_lines pit orig tm (y + 42) ?ops2)) = ?ops2 @ rest" ..
      then show ?thesis
        by (simp add: e Cons Some Let_def)
    qed
  qed
qed

lemma source_lines_okD:
  assumes "\<forall>(k, v)\<in>set tm. v \<noteq> []" and "source_lines pit orig tm y ops = (ok, y1, ops1)"
  shows ok
  using source_lines_ok [OF assms(1), of pit orig y ops] assms(2) by simp

lemma debug_overlay_ok:
  assumes "\<forall>(k, v)\<in>set tm. v \<noteq> []"
  shows "fst (debug_overlay dbg c pit tm pt lt)"
  by (auto simp: debug_overlay_def Let_def split: prod.splits dest: source_lines_okD [OF assms])

lemma debug_overlay_okD:
  "\<forall>(k, v)\<in>set tm. v \<noteq> [] \<Longrightarrow> debug_overlay dbg c pit tm pt lt = (ok, ops) \<Longrightarrow> ok"
  using debug_overlay_ok [of tm dbg c pit pt lt] by simp

lemma set_size_fields [simp]:
  "elements (set_size el sz w) =
     (elements w)(el := (elements w el)\<lparr>el_width := sz, el_height := sz\<rparr>)"
  "events (set_size el sz w) = events w"
  "debug (set_size el sz w) = debug w"
  "pointer (set_size el sz w) = pointer w"
  "tileSize (set_size el sz w) = tileSize w"
  "backgroundColor (set_size el sz w) = backgroundColor w"
  by (simp_all add: set_size_def)

lemma draw_fields [simp]:
  "elements (draw el ops w) =
     (elements w)(el := (elements w el)\<lparr>el_ops := el_ops (elements w el) @ ops\<rparr>)"
  "events (draw el ops w) = events w"
  "debug (draw el ops w) = debug w"
  "pointer (draw el ops w) = pointer w"
  by (simp_all add: draw_def)

lemma call_done_fields [simp]:
  "elements (call_done cb w) = elements w"
  "events (call_done cb w) =
     events w @ DoneCalled cb # (case cb of NoOp \<Rightarrow> [] | ShowTile e \<Rightarrow> [TileReady e])"
  by (simp_all add: call_done_def)

text \<open>The paint stage when the gate passes and the canvas gives a context.\<close>

lemma after_timer_fresh:
  assumes "\<not> stale t w" and "el_has_ctx (elements w (r_element t))"
  shows "after_timer P t tm lt ld w =
    (finish t,
     let args = paint_call w (r_coords t) tm ld;
         w2 = draw (r_element t)
                ([SetTransform (tileSize w / 256) 0 0 (tileSize w / 256) 0 0,
                  ClearRect 0 0 256 256] @ background_ops (backgroundColor w) @ [Paint args])
                ((set_size (r_element t) (tileSize w) w)\<lparr>pickedFeatures := snd (P args)\<rparr>)
     in case truthy_str (debug w) of
          None \<Rightarrow> call_done (r_done t) w2
        | Some dbg \<Rightarrow>
            (case debug_overlay dbg (r_coords t)
                    (pointerInTile (pointer w) (tile_bbox (r_coords t))) tm (fst (P args)) lt of
               (ok, ops) \<Rightarrow>
                 if ok then call_done (r_done t) (draw (r_element t) ops w2)
                 else draw (r_element t) ops w2))"
  using assms
  by (simp add: after_timer_def Let_def split: option.splits prod.splits)

lemma after_timer_canvas:
  assumes "\<not> stale t w" and "el_has_ctx (elements w (r_element t))"
  shows "\<exists>rest. el_ops (elements (snd (after_timer P t tm lt ld w)) (r_element t)) =
           el_ops (elements w (r_element t)) @
           [SetTransform (tileSize w / 256) 0 0 (tileSize w / 256) 0 0, ClearRect 0 0 256 256] @
           background_ops (backgroundColor w) @ [Paint (paint_call w (r_coords t) tm ld)] @ rest"
    and "el_width (elements (snd (after_timer P t tm lt ld w)) (r_element t)) = tileSize w"
    and "el_height (elements (snd (after_timer P t tm lt ld w)) (r_element t)) = tileSize w"
  by (simp_all add: after_timer_fresh [OF assms] Let_def split: option.splits prod.splits)

lemma after_timer_done:
  assumes "\<not> stale t w" and "el_has_ctx (elements w (r_element t))"
    and "\<forall>(k, v)\<in>set tm. v \<noteq> []"
  shows "r_pc (fst (after_timer P t tm lt ld w)) = Finished"
    and "events (snd (after_timer P t tm lt ld w)) =
           events w @ DoneCalled (r_done t) #
             (case r_done t of NoOp \<Rightarrow> [] | ShowTile e \<Rightarrow> [TileReady e])"
proof -
  show "r_pc (fst (after_timer P t tm lt ld w)) = Finished"
    by (simp add: after_timer_fresh [OF assms(1,2)])
  show "events (snd (after_timer P t tm lt ld w)) =
           events w @ DoneCalled (r_done t) #
             (case r_done t of NoOp \<Rightarrow> [] | ShowTile e \<Rightarrow> [TileReady e])"
  proof (cases "truthy_str (debug w)")
    case None
    then show ?thesis
      by (simp add: after_timer_fresh [OF assms(1,2)] Let_def)
  next
    case (Some dbg)
    obtain ok ops where d: "debug_overlay dbg (r_coords t)
        (pointerInTile (pointer w) (tile_bbox (r_coords t))) tm
        (fst (P (paint_call w (r_coords t) tm ld))) lt = (ok, ops)"
      by (cases "debug_overlay dbg (r_coords t)
        (pointerInTile (pointer w) (tile_bbox (r_coords t))) tm
        (fst (P (paint_call w (r_coords t) tm ld))) lt")
    have ok
      using debug_overlay_okD [OF assms(3) d] .
    then show ?thesis
      by (simp add: after_timer_fresh [OF assms(1,2)] Let_def Some d)
  qed
qed

lemma tileSize_constructed:
  assumes "LeafletLayer ext options = Inr l"
  shows "tileSize l = 256 * devicePixelRatio ext"
proof -
  from LeafletLayer_init [OF assms] obtain pr lr bg
    where "l = init_layer ext (super_options options) pr lr bg" by blast
  then show ?thesis
    by (simp add: init_layer_def)
qed

text \<open>
  Claim C7. When an invocation of \<open>renderTile\<close> for the tile \<open>(z, x, y)\<close> reaches the paint
  stage, the box passed to \<open>paint\<close> is the tile's extent in the local 256-unit space,
  from \<open>(256 x, 256 y)\<close> to \<open>(256 (x + 1), 256 (y + 1))\<close>, widened by 16 units on each
  side. The output surface is scaled to the device pixel ratio: the canvas is
  \<open>tileSize\<close> wide and high and its context is transformed by \<open>tileSize / 256\<close>, where
  the constructor sets \<open>tileSize\<close> to 256 times the device pixel ratio.
\<close>

theorem paint_bbox:
  assumes "r_pc t = AwaitTimer tm lt ld" and "\<not> stale t w"
    and "el_has_ctx (elements w (r_element t))" and "tileSize w = 256 * dpr"
  shows "(\<exists>rest. el_ops (elements (snd (resume P t s w)) (r_element t)) =
           el_ops (elements w (r_element t)) @
           [SetTransform dpr 0 0 dpr 0 0, ClearRect 0 0 256 256] @
           background_ops (backgroundColor w) @ [Paint (paint_call w (r_coords t) tm ld)] @ rest) \<and>
         pa_bbox (paint_call w (r_coords t) tm ld) =
           \<lparr>minX = 256 * cx (r_coords t) - 16, minY = 256 * cy (r_coords t) - 16,
            maxX = 256 * (cx (r_coords t) + 1) + 16, maxY = 256 * (cy (r_coords t) + 1) + 16\<rparr> \<and>
         el_width (elements (snd (resume P t s w)) (r_element t)) = 256 * dpr \<and>
         el_height (elements (snd (resume P t s w)) (r_element t)) = 256 * dpr \<and>
         (LeafletLayer ext options = Inr l \<longrightarrow> tileSize l = 256 * devicePixelRatio ext)"
proof -
  have r: "resume P t s w = after_timer P t tm lt ld w"
    using assms(1) by (simp add: resume_def)
  have "pa_bbox (paint_call w (r_coords t) tm ld) =
           \<lparr>minX = 256 * cx (r_coords t) - 16, minY = 256 * cy (r_coords t) - 16,
            maxX = 256 * (cx (r_coords t) + 1) + 16, maxY = 256 * (cy (r_coords t) + 1) + 16\<rparr>"
    by (simp add: paint_call_def bboxWithBuffer_def buf_def)
  then show ?thesis
    using after_timer_canvas [OF assms(2,3), of P tm lt ld] assms(4) tileSize_constructed
    by (simp add: r)
qed

lemma demo_created_ctx: "el_has_ctx (elements demo_created 0)"
  by (simp add: demo_created_def createTile_def renderTile_def Let_def fresh_element_def
      demo_layer_def init_layer_def)

lemma demo_created_tileSize: "tileSize demo_created = 256"
  by (simp add: demo_created_def createTile_def renderTile_def Let_def emit_def demo_layer_def
      init_layer_def demo_ext_def)

lemma demo_constructed:
  "LeafletLayer demo_ext demo_options =
     Inr (init_layer demo_ext (super_options demo_options) [] [] None)"
  by (simp add: LeafletLayer_def demo_options_def super_options_def truthy_str_def Let_def)

theorem paint_bbox_witness:
  "r_pc (demo_render\<lparr>r_pc := AwaitTimer [] 0 []\<rparr>) = AwaitTimer [] 0 [] \<and>
   \<not> stale (demo_render\<lparr>r_pc := AwaitTimer [] 0 []\<rparr>) demo_created \<and>
   el_has_ctx (elements demo_created (r_element (demo_render\<lparr>r_pc := AwaitTimer [] 0 []\<rparr>))) \<and>
   tileSize demo_created = 256 * 1 \<and>
   LeafletLayer demo_ext demo_options =
     Inr (init_layer demo_ext (super_options demo_options) [] [] None) \<and>
   pa_bbox (paint_call demo_created demo_coords [] []) =
     \<lparr>minX = - 16, minY = - 16, maxX = 272, maxY = 272\<rparr> \<and>
   el_width (elements (snd (resume demo_paint (demo_render\<lparr>r_pc := AwaitTimer [] 0 []\<rparr>)
     demo_settlement demo_created)) 0) = 256"
proof -
  let ?t = "demo_render\<lparr>r_pc := AwaitTimer [] 0 []\<rparr>"
  have a: "r_pc ?t = AwaitTimer [] 0 []"
    by simp
  have b: "\<not> stale ?t demo_created"
    using demo_created_fresh by (simp add: stale_def)
  have c: "el_has_ctx (elements demo_created (r_element ?t))"
    by (simp add: demo_render_eq demo_created_ctx)
  have d: "tileSize demo_created = 256 * 1"
    by (simp add: demo_created_tileSize)
  have e: "r_coords ?t = demo_coords" "r_element ?t = 0"
    by (simp_all add: demo_render_eq)
  show ?thesis
    using a b c d demo_constructed
      paint_bbox [OF a b c d, of demo_paint demo_settlement demo_ext demo_options
        "init_layer demo_ext (super_options demo_options) [] [] None"]
    by (simp add: e demo_coords_def)
qed

subsection \<open>Rejected sources\<close>

lemma stale_pc [simp]: "stale (t\<lparr>r_pc := x\<rparr>) w = stale t w"
  by (simp add: stale_def)

lemma emit_fields [simp]:
  "l_map (emit es w) = l_map w"
  "label_index (emit es w) = label_index w"
  "tileDelay (emit es w) = tileDelay w"
  "tileSize (emit es w) = tileSize w"
  "lastRequestedZ (emit es w) = lastRequestedZ w"
  "backgroundColor (emit es w) = backgroundColor w"
  "debug (emit es w) = debug w"
  "pointer (emit es w) = pointer w"
  by (simp_all add: emit_def)

lemma after_fetch_fresh:
  "\<not> stale t w \<Longrightarrow> after_fetch t ks s w =
     (t\<lparr>r_pc := AwaitTasks (build_tilemap (tileResponses ks (s_fetched s)) [])\<rparr>,
      emit (map ConsoleError (logged_reasons (tileResponses ks (s_fetched s)))) w)"
  by (simp add: after_fetch_def Let_def)

lemma after_tasks_fresh:
  "\<not> stale t w \<Longrightarrow> after_tasks t tm w =
     (t\<lparr>r_pc := AwaitLabelAdd tm\<rparr>, emit [LabelersAdd (cz (r_coords t)) tm] w)"
  by (simp add: after_tasks_def)

lemma after_add_detached:
  "\<not> stale t w \<Longrightarrow> l_map w = None \<Longrightarrow> after_add t tm lt w =
     (finish t, emit [LabelersGetIndex (cz (r_coords t))] w)"
  by (simp add: after_add_def Let_def)

lemma after_timer_noctx:
  "\<not> stale t w \<Longrightarrow> \<not> el_has_ctx (elements w (r_element t)) \<Longrightarrow>
   after_timer P t tm lt ld w =
     (finish t, emit [ConsoleErrorMsg ''Failed to get Canvas context'']
                  (set_size (r_element t) (tileSize w) w))"
  by (simp add: after_timer_def Let_def)

lemma update_fresh: "k \<notin> fst ` set m \<Longrightarrow> AList.update k v m = m @ [(k, v)]"
  by (induction m) auto

lemma build_tilemap_distinct:
  "distinct ks \<Longrightarrow> set ks \<inter> fst ` set m = {} \<Longrightarrow>
   build_tilemap (tileResponses ks f) m =
     m @ concat (map (\<lambda>k. case f k of Fulfilled v \<Rightarrow> [(k, [v])] | Rejected e \<Rightarrow> []) ks)"
proof (induction ks arbitrary: m)
  case Nil
  then show ?case by (simp add: tileResponses_def)
next
  case (Cons k ks)
  have step: "tileResponses (k # ks) f = (k, f k) # tileResponses ks f"
    by (simp add: tileResponses_def)
  show ?case
  proof (cases "f k")
    case (Fulfilled v)
    have fresh: "k \<notin> fst ` set m"
      using Cons.prems(2) by auto
    have "set ks \<inter> fst ` set (m @ [(k, [v])]) = {}"
      using Cons.prems by auto
    with Cons.IH [of "m @ [(k, [v])]"] Cons.prems(1)
    show ?thesis
      by (simp add: step Fulfilled update_fresh [OF fresh])
  next
    case (Rejected e)
    have "set ks \<inter> fst ` set m = {}"
      using Cons.prems(2) by auto
    with Cons.IH [of m] Cons.prems(1)
    show ?thesis
      by (simp add: step Rejected)
  qed
qed

lemma logged_reasons_eq:
  "logged_reasons (tileResponses ks f) =
     concat (map (\<lambda>k. case f k of Fulfilled v \<Rightarrow> []
                        | Rejected e \<Rightarrow> if err_name e = ''AbortError'' then [] else [e]) ks)"
proof (induction ks)
  case Nil
  then show ?case by (simp add: tileResponses_def)
next
  case (Cons k ks)
  then show ?case
    by (cases "f k") (simp_all add: tileResponses_def)
qed

lemma tilemap_entries_nonempty:
  "\<forall>(k, v)\<in>set (concat (map (\<lambda>k. case f k of Fulfilled v \<Rightarrow> [(k, [v])] | Rejected e \<Rightarrow> []) ks)).
     v \<noteq> []"
  by (induction ks) (auto split: settled.splits)

text \<open>
  Claim C2, as amended. Let the views have distinct names (they are the keys of a
  \<open>Map\<close>). The \<open>PreparedTileMap\<close> built after the fetch barrier has, in the order of the
  views, one entry for each source whose fetch fulfilled, bound to the one-element
  sequence of that source's result, and no entry for a source whose fetch rejected. A
  rejection named \<open>AbortError\<close> is not logged, every other rejection is logged. A
  rejection does not end the render: if the staleness gate passes at each of the four
  resumptions, the layer is on a map when the delay is computed and the canvas gives a
  2D context, the render paints with that map and calls \<open>done\<close>.
\<close>

theorem rejected_source_is_omitted:
  assumes "r_pc t = AwaitFetch ks" and "distinct ks"
    and "\<not> stale t wa" and "\<not> stale t wb" and "\<not> stale t wc" and "\<not> stale t wd"
    and "l_map wc \<noteq> None" and "el_has_ctx (elements wd (r_element t))"
  shows
    "let tm = concat (map (\<lambda>k. case s_fetched sa k of
                                  Fulfilled v \<Rightarrow> [(k, [v])] | Rejected e \<Rightarrow> []) ks);
         ta = fst (resume P t sa wa);
         tb = fst (resume P ta sb wb);
         tc = fst (resume P tb sc wc)
     in r_pc ta = AwaitTasks tm \<and>
        snd (resume P t sa wa) =
          emit (map ConsoleError
                 (concat (map (\<lambda>k. case s_fetched sa k of
                                      Fulfilled v \<Rightarrow> []
                                    | Rejected e \<Rightarrow>
                                        if err_name e = ''AbortError'' then [] else [e]) ks))) wa \<and>
        r_pc (fst (resume P tc sd wd)) = Finished \<and>
        events (snd (resume P tc sd wd)) =
          events wd @ DoneCalled (r_done t) #
            (case r_done t of NoOp \<Rightarrow> [] | ShowTile e \<Rightarrow> [TileReady e]) \<and>
        (\<exists>rest. el_ops (elements (snd (resume P tc sd wd)) (r_element t)) =
           el_ops (elements wd (r_element t)) @
           [SetTransform (tileSize wd / 256) 0 0 (tileSize wd / 256) 0 0, ClearRect 0 0 256 256] @
           background_ops (backgroundColor wd) @
           [Paint (paint_call wd (r_coords t) tm (label_index wc (cz (r_coords t))))] @ rest)"
proof -
  let ?tm = "concat (map (\<lambda>k. case s_fetched sa k of
                                  Fulfilled v \<Rightarrow> [(k, [v])] | Rejected e \<Rightarrow> []) ks)"
  let ?ld = "label_index wc (cz (r_coords t))"
  let ?td = "t\<lparr>r_pc := AwaitTimer ?tm (s_layoutTime sc) ?ld\<rparr>"
  have tm: "build_tilemap (tileResponses ks (s_fetched sa)) [] = ?tm"
    using build_tilemap_distinct [OF assms(2), of "[]" "s_fetched sa"] by simp
  have ra: "resume P t sa wa =
      (t\<lparr>r_pc := AwaitTasks ?tm\<rparr>,
       emit (map ConsoleError
                 (concat (map (\<lambda>k. case s_fetched sa k of
                                      Fulfilled v \<Rightarrow> []
                                    | Rejected e \<Rightarrow>
                                        if err_name e = ''AbortError'' then [] else [e]) ks))) wa)"
    using assms(1,3) by (simp add: resume_def after_fetch_fresh tm logged_reasons_eq)
  have rb: "fst (resume P (t\<lparr>r_pc := AwaitTasks ?tm\<rparr>) sb wb) = t\<lparr>r_pc := AwaitLabelAdd ?tm\<rparr>"
    using assms(4) by (simp add: resume_def after_tasks_fresh)
  obtain m where m: "l_map wc = Some m"
    using assms(7) by auto
  have rc: "fst (resume P (t\<lparr>r_pc := AwaitLabelAdd ?tm\<rparr>) sc wc) = ?td"
    using assms(5) m by (simp add: resume_def after_add_fresh)
  have rd: "resume P ?td sd wd = after_timer P ?td ?tm (s_layoutTime sc) ?ld wd"
    by (simp add: resume_def)
  have fresh: "\<not> stale ?td wd"
    using assms(6) by simp
  have ctx: "el_has_ctx (elements wd (r_element ?td))"
    using assms(8) by simp
  note d = after_timer_done [OF fresh ctx tilemap_entries_nonempty, of P "s_fetched sa" ks
      "s_layoutTime sc" ?ld]
  note c = after_timer_canvas(1) [OF fresh ctx, of P ?tm "s_layoutTime sc" ?ld]
  show ?thesis
    using d c by (simp add: Let_def ra rb rc rd)
qed

lemma demo_created_events:
  "events demo_created = [GetDisplayTile ''a'' demo_coords, GetDisplayTile ''b'' demo_coords]"
  by (simp add: demo_created_def createTile_def renderTile_def Let_def emit_def demo_layer_def
      init_layer_def demo_ext_def demo_options_def)

lemma demo_created_ops: "el_ops (elements demo_created 0) = []"
  by (simp add: demo_created_def createTile_def renderTile_def Let_def fresh_element_def
      demo_layer_def init_layer_def)

lemma demo_created_noop:
  "debug demo_created = None" "backgroundColor demo_created = None"
  "pointer demo_created = None" "label_index demo_created 0 = []"
  by (simp_all add: demo_created_def createTile_def renderTile_def Let_def emit_def demo_layer_def
      init_layer_def demo_options_def)

text \<open>The steps of the demo render on any layer in which it is not stale.\<close>

lemma demo_step1:
  "\<not> stale demo_render w \<Longrightarrow>
   resume demo_paint demo_render demo_settlement w =
     (demo_render\<lparr>r_pc := AwaitTasks [(''a'', [demo_tile])]\<rparr>,
      emit [ConsoleError \<lparr>err_name = ''Error'', err_message = ''fetch failed''\<rparr>] w)"
  by (simp add: resume_def demo_render_eq after_fetch_fresh tileResponses_def demo_settlement_def)

lemma demo_step2:
  "\<not> stale demo_render w \<Longrightarrow>
   resume demo_paint (demo_render\<lparr>r_pc := AwaitTasks tm\<rparr>) demo_settlement w =
     (demo_render\<lparr>r_pc := AwaitLabelAdd tm\<rparr>, emit [LabelersAdd 0 tm] w)"
  by (simp add: resume_def after_tasks_fresh) (simp add: demo_render_eq demo_coords_def)

lemma demo_step3:
  "\<not> stale demo_render w \<Longrightarrow> l_map w = Some demo_map \<Longrightarrow> label_index w 0 = [] \<Longrightarrow>
   resume demo_paint (demo_render\<lparr>r_pc := AwaitLabelAdd tm\<rparr>) demo_settlement w =
     (demo_render\<lparr>r_pc := AwaitTimer tm 0 []\<rparr>, emit [LabelersGetIndex 0, SetTimer 0] w)"
  by (simp add: resume_def after_add_fresh)
     (simp add: demo_render_eq demo_coords_def demo_settlement_def demo_map_def priority_def
       distanceTo_def)

lemma demo_step3_detached:
  "\<not> stale demo_render w \<Longrightarrow> l_map w = None \<Longrightarrow>
   resume demo_paint (demo_render\<lparr>r_pc := AwaitLabelAdd tm\<rparr>) demo_settlement w =
     (finish demo_render, emit [LabelersGetIndex 0] w)"
  by (simp add: resume_def after_add_detached)
     (simp add: demo_render_eq demo_coords_def finish_def)

lemma demo_step4_noctx:
  assumes "\<not> stale demo_render w" and "\<not> el_has_ctx (elements w 0)"
  shows "resume demo_paint (demo_render\<lparr>r_pc := AwaitTimer tm lt ld\<rparr>) demo_settlement w =
     (finish demo_render,
      emit [ConsoleErrorMsg ''Failed to get Canvas context''] (set_size 0 (tileSize w) w))"
proof -
  let ?t = "demo_render\<lparr>r_pc := AwaitTimer tm lt ld\<rparr>"
  have "\<not> stale ?t w"
    using assms(1) by simp
  moreover have "\<not> el_has_ctx (elements w (r_element ?t))"
    using assms(2) by (simp add: demo_render_eq)
  ultimately have "after_timer demo_paint ?t tm lt ld w =
     (finish ?t, emit [ConsoleErrorMsg ''Failed to get Canvas context'']
                   (set_size (r_element ?t) (tileSize w) w))"
    by (rule after_timer_noctx)
  then show ?thesis
    by (simp add: resume_def demo_render_eq finish_def)
qed

lemma demo_run1_eq:
  "demo_run1 = (demo_render\<lparr>r_pc := AwaitTasks [(''a'', [demo_tile])]\<rparr>,
      emit [ConsoleError \<lparr>err_name = ''Error'', err_message = ''fetch failed''\<rparr>] demo_created)"
  by (simp add: demo_run1_def demo_step1 demo_created_fresh)

lemma demo_run2_eq:
  "demo_run2 = (demo_render\<lparr>r_pc := AwaitLabelAdd [(''a'', [demo_tile])]\<rparr>,
      emit [ConsoleError \<lparr>err_name = ''Error'', err_message = ''fetch failed''\<rparr>,
            LabelersAdd 0 [(''a'', [demo_tile])]] demo_created)"
  by (simp add: demo_run2_def demo_run1_eq demo_step2 demo_created_fresh emit_emit)

lemma demo_run3_eq:
  "demo_run3 = (demo_render\<lparr>r_pc := AwaitTimer [(''a'', [demo_tile])] 0 []\<rparr>,
      emit [ConsoleError \<lparr>err_name = ''Error'', err_message = ''fetch failed''\<rparr>,
            LabelersAdd 0 [(''a'', [demo_tile])], LabelersGetIndex 0, SetTimer 0] demo_created)"
  by (simp add: demo_run3_def demo_run2_eq demo_step3 demo_created_fresh demo_created_map
      demo_created_noop emit_emit)

theorem rejected_source_is_omitted_witness:
  "r_pc demo_render = AwaitFetch [''a'', ''b''] \<and> distinct [''a'', ''b''] \<and>
   \<not> stale demo_render demo_created \<and> \<not> stale demo_render (snd demo_run1) \<and>
   \<not> stale demo_render (snd demo_run2) \<and> \<not> stale demo_render (snd demo_run3) \<and>
   l_map (snd demo_run2) \<noteq> None \<and>
   el_has_ctx (elements (snd demo_run3) (r_element demo_render)) \<and>
   r_pc (fst demo_run1) = AwaitTasks [(''a'', [demo_tile])] \<and>
   r_pc (fst demo_run4) = Finished \<and>
   events (snd demo_run4) = events (snd demo_run3) @ [DoneCalled (ShowTile 0), TileReady 0]"
proof -
  have a: "r_pc demo_render = AwaitFetch [''a'', ''b'']"
    by (simp add: demo_render_eq)
  have b: "distinct [''a'', ''b'']"
    by simp
  have c1: "\<not> stale demo_render (snd demo_run1)"
    by (simp add: demo_run1_eq demo_created_fresh)
  have c2: "\<not> stale demo_render (snd demo_run2)"
    by (simp add: demo_run2_eq demo_created_fresh)
  have c3: "\<not> stale demo_render (snd demo_run3)"
    by (simp add: demo_run3_eq demo_created_fresh)
  have m: "l_map (snd demo_run2) \<noteq> None"
    by (simp add: demo_run2_eq demo_created_map)
  have x: "el_has_ctx (elements (snd demo_run3) (r_element demo_render))"
    by (simp add: demo_run3_eq demo_render_eq demo_created_ctx)
  have r1: "resume demo_paint demo_render demo_settlement demo_created = demo_run1"
    by (simp add: demo_run1_def)
  have r2: "resume demo_paint (fst demo_run1) demo_settlement (snd demo_run1) = demo_run2"
    by (simp add: demo_run2_def)
  have r3: "resume demo_paint (fst demo_run2) demo_settlement (snd demo_run2) = demo_run3"
    by (simp add: demo_run3_def)
  have r4: "resume demo_paint (fst demo_run3) demo_settlement (snd demo_run3) = demo_run4"
    by (simp add: demo_run4_def)
  have d: "r_done demo_render = ShowTile 0"
    by (simp add: demo_render_eq)
  show ?thesis
    using a b demo_created_fresh c1 c2 c3 m x
      rejected_source_is_omitted [OF a b demo_created_fresh c1 c2 c3 m x,
        where P = demo_paint and sa = demo_settlement and sb = demo_settlement
          and sc = demo_settlement and sd = demo_settlement]
    by (simp add: Let_def r1 r2 r3 r4 d) (simp add: demo_settlement_def)
qed

text \<open>
  Claim C2 as stated fails: besides the staleness gates, the render returns without
  painting when \<open>getContext("2d")\<close> gives no context (all four gates passed) and when
  the layer is on no map (line 178). In both runs source \<open>b\<close> has rejected and source
  \<open>a\<close> has delivered; nothing is drawn and \<open>done\<close> is not called.
\<close>

theorem fresh_render_without_paint:
  "\<not> stale demo_render demo_noctx \<and> \<not> stale (fst noctx_run1) (snd noctx_run1) \<and>
   \<not> stale (fst noctx_run2) (snd noctx_run2) \<and> \<not> stale (fst noctx_run3) (snd noctx_run3) \<and>
   r_pc (fst noctx_run4) = Finished \<and>
   el_ops (elements (snd noctx_run4) 0) = [] \<and>
   events (snd noctx_run4) =
     [GetDisplayTile ''a'' demo_coords, GetDisplayTile ''b'' demo_coords,
      ConsoleError \<lparr>err_name = ''Error'', err_message = ''fetch failed''\<rparr>,
      LabelersAdd 0 [(''a'', [demo_tile])], LabelersGetIndex 0, SetTimer 0,
      ConsoleErrorMsg ''Failed to get Canvas context''] \<and>
   \<not> stale demo_render demo_detached \<and> \<not> stale (fst detached_run1) (snd detached_run1) \<and>
   \<not> stale (fst detached_run2) (snd detached_run2) \<and>
   r_pc (fst detached_run3) = Finished \<and>
   el_ops (elements (snd detached_run3) 0) = [] \<and>
   events (snd detached_run3) =
     [GetDisplayTile ''a'' demo_coords, GetDisplayTile ''b'' demo_coords,
      ConsoleError \<lparr>err_name = ''Error'', err_message = ''fetch failed''\<rparr>,
      LabelersAdd 0 [(''a'', [demo_tile])], LabelersGetIndex 0]"
proof -
  have n0: "\<not> stale demo_render demo_noctx"
    using demo_created_fresh by (simp add: stale_def demo_noctx_def demo_render_eq)
  have nm: "l_map demo_noctx = Some demo_map" "label_index demo_noctx 0 = []"
      "\<not> el_has_ctx (elements demo_noctx 0)"
    by (simp_all add: demo_noctx_def demo_created_map demo_created_noop)
  have n1: "noctx_run1 = (demo_render\<lparr>r_pc := AwaitTasks [(''a'', [demo_tile])]\<rparr>,
      emit [ConsoleError \<lparr>err_name = ''Error'', err_message = ''fetch failed''\<rparr>] demo_noctx)"
    by (simp add: noctx_run1_def demo_step1 n0)
  have n2: "noctx_run2 = (demo_render\<lparr>r_pc := AwaitLabelAdd [(''a'', [demo_tile])]\<rparr>,
      emit [ConsoleError \<lparr>err_name = ''Error'', err_message = ''fetch failed''\<rparr>,
            LabelersAdd 0 [(''a'', [demo_tile])]] demo_noctx)"
    by (simp add: noctx_run2_def n1 demo_step2 n0 emit_emit)
  have n3: "noctx_run3 = (demo_render\<lparr>r_pc := AwaitTimer [(''a'', [demo_tile])] 0 []\<rparr>,
      emit [ConsoleError \<lparr>err_name = ''Error'', err_message = ''fetch failed''\<rparr>,
            LabelersAdd 0 [(''a'', [demo_tile])], LabelersGetIndex 0, SetTimer 0] demo_noctx)"
    by (simp add: noctx_run3_def n2 demo_step3 n0 nm emit_emit)
  have n4: "noctx_run4 = (finish demo_render,
      emit [ConsoleErrorMsg ''Failed to get Canvas context'']
        (set_size 0 (tileSize demo_noctx)
          (emit [ConsoleError \<lparr>err_name = ''Error'', err_message = ''fetch failed''\<rparr>,
            LabelersAdd 0 [(''a'', [demo_tile])], LabelersGetIndex 0, SetTimer 0] demo_noctx)))"
    by (simp add: noctx_run4_def n3 demo_step4_noctx n0 nm)
  have d0: "\<not> stale demo_render demo_detached"
    using demo_created_fresh by (simp add: stale_def demo_detached_def)
  have dm: "l_map demo_detached = None"
    by (simp add: demo_detached_def)
  have d1: "detached_run1 = (demo_render\<lparr>r_pc := AwaitTasks [(''a'', [demo_tile])]\<rparr>,
      emit [ConsoleError \<lparr>err_name = ''Error'', err_message = ''fetch failed''\<rparr>] demo_detached)"
    by (simp add: detached_run1_def demo_step1 d0)
  have d2: "detached_run2 = (demo_render\<lparr>r_pc := AwaitLabelAdd [(''a'', [demo_tile])]\<rparr>,
      emit [ConsoleError \<lparr>err_name = ''Error'', err_message = ''fetch failed''\<rparr>,
            LabelersAdd 0 [(''a'', [demo_tile])]] demo_detached)"
    by (simp add: detached_run2_def d1 demo_step2 d0 emit_emit)
  have d3: "detached_run3 = (finish demo_render,
      emit [ConsoleError \<lparr>err_name = ''Error'', err_message = ''fetch failed''\<rparr>,
            LabelersAdd 0 [(''a'', [demo_tile])], LabelersGetIndex 0] demo_detached)"
    by (simp add: detached_run3_def d2 demo_step3_detached d0 dm emit_emit)
  have ev: "events demo_noctx = events demo_created" "events demo_detached = events demo_created"
    by (simp_all add: demo_noctx_def demo_detached_def)
  have ops: "el_ops (elements demo_noctx 0) = []" "el_ops (elements demo_detached 0) = []"
    using demo_created_ops by (simp_all add: demo_noctx_def demo_detached_def)
  show ?thesis
    using n0 d0 ops
    by (simp add: n1 n2 n3 n4 d1 d2 d3 ev demo_created_events)
qed

subsection \<open>Removing a tile\<close>

lemma ready_signals_append:
  "ready_signals (xs @ ys) = ready_signals xs @ ready_signals ys"
proof (induction xs)
  case Nil
  then show ?case by simp
next
  case (Cons e xs)
  then show ?case by (cases e) simp_all
qed

lemma ready_signals_console [simp]: "ready_signals (map ConsoleError rs) = []"
  by (induction rs) simp_all

lemma removeTile_tracked:
  assumes "map_of (l_tiles w) key = Some el"
  shows "removeTile h key w =
     emit [FireTileUnload el (keyToTileCoords h key)]
       (w\<lparr>elements := (elements w)(el :=
             (elements w el)\<lparr>el_removed := True, el_key := None,
                el_classes := removeAll ''leaflet-tile-loaded'' (el_classes (elements w el)),
                el_width := 0, el_height := 0, el_in_dom := False\<rparr>),
          l_tiles := AList.delete key (l_tiles w)\<rparr>)"
  using assms by (simp add: removeTile_def)

lemma createTile_render:
  "fst (snd (createTile h c w)) =
     \<lparr>r_coords = c, r_element = next_el w, r_key = tileCoordsToKey h c,
      r_done = ShowTile (next_el w), r_pc = AwaitFetch (views w)\<rparr>"
  "fst (createTile h c w) = next_el w"
  by (simp_all add: createTile_def renderTile_def Let_def)

text \<open>
  Claim C6. \<open>_removeTile(key)\<close> on a tracked tile marks the element removed, sets its
  key to \<open>undefined\<close> and deletes the key from \<open>_tiles\<close>. A render in flight for that
  element (the one \<open>createTile\<close> has started is such a render) that is resumed while the
  element is as \<open>_removeTile\<close> left it, whatever else has changed, is stale: it finishes
  without touching a canvas, the readiness callback is not called, only console output
  can be added, and resuming it again does nothing.
\<close>

theorem removeTile_stops_render:
  assumes "map_of (l_tiles w) key = Some el"
    and "r_element t = el" and "r_pc t \<noteq> Finished"
    and "elements w' el = elements (removeTile h key w) el"
  shows "el_removed (elements (removeTile h key w) el) \<and>
         el_key (elements (removeTile h key w) el) = None \<and>
         map_of (l_tiles (removeTile h key w)) key = None \<and>
         stale t w' \<and>
         r_pc (fst (resume P t s w')) = Finished \<and>
         elements (snd (resume P t s w')) = elements w' \<and>
         (\<exists>rs. events (snd (resume P t s w')) = events w' @ map ConsoleError rs) \<and>
         ready_signals (events (snd (resume P t s w'))) = ready_signals (events w') \<and>
         resume P (fst (resume P t s w')) s2 w2 = (fst (resume P t s w'), w2) \<and>
         r_element (fst (snd (createTile h c w0))) = fst (createTile h c w0) \<and>
         r_pc (fst (snd (createTile h c w0))) \<noteq> Finished"
proof -
  have rm: "el_removed (elements (removeTile h key w) el)"
      "el_key (elements (removeTile h key w) el) = None"
      "map_of (l_tiles (removeTile h key w)) key = None"
    by (simp_all add: removeTile_tracked [OF assms(1)] emit_def delete_conv')
  have st: "stale t w'"
    using assms(2,4) rm(2) by (simp add: stale_def)
  have fin: "r_pc (fst (resume P t s w')) = Finished"
    using assms(3) by (cases "r_pc t") (simp_all add: resume_stale [OF st])
  have el: "elements (snd (resume P t s w')) = elements w'"
    by (cases "r_pc t") (simp_all add: resume_stale [OF st])
  have ev: "\<exists>rs. events (snd (resume P t s w')) = events w' @ map ConsoleError rs"
  proof (cases "r_pc t")
    case (AwaitFetch ks)
    then have "events (snd (resume P t s w')) =
        events w' @ map ConsoleError (logged_reasons (tileResponses ks (s_fetched s)))"
      by (simp add: resume_stale [OF st])
    then show ?thesis ..
  next
    case (AwaitTasks m)
    then have "events (snd (resume P t s w')) = events w' @ map ConsoleError []"
      by (simp add: resume_stale [OF st])
    then show ?thesis ..
  next
    case (AwaitLabelAdd m)
    then have "events (snd (resume P t s w')) = events w' @ map ConsoleError []"
      by (simp add: resume_stale [OF st])
    then show ?thesis ..
  next
    case (AwaitTimer m lt ld)
    then have "events (snd (resume P t s w')) = events w' @ map ConsoleError []"
      by (simp add: resume_stale [OF st])
    then show ?thesis ..
  next
    case Finished
    with assms(3) show ?thesis by simp
  qed
  then obtain rs where "events (snd (resume P t s w')) = events w' @ map ConsoleError rs" ..
  then have rd: "ready_signals (events (snd (resume P t s w'))) = ready_signals (events w')"
    by (simp add: ready_signals_append)
  show ?thesis
    using rm st fin el ev rd resume_finished [OF fin, of P s2 w2]
    by (simp add: createTile_render)
qed

lemma demo_tracked_key: "map_of (l_tiles demo_tracked) (leaflet_key demo_coords) = Some 0"
  by (simp add: demo_tracked_def)

theorem removeTile_stops_render_witness:
  "map_of (l_tiles demo_tracked) (leaflet_key demo_coords) = Some 0 \<and>
   r_element demo_render = 0 \<and> r_pc demo_render \<noteq> Finished \<and>
   elements demo_removed 0 = elements (removeTile demo_grid (leaflet_key demo_coords) demo_tracked) 0 \<and>
   demo_render = fst (snd (createTile demo_grid demo_coords demo_layer)) \<and>
   el_key (elements demo_removed 0) = None \<and>
   stale demo_render demo_removed \<and>
   r_pc (fst (resume demo_paint demo_render demo_settlement demo_removed)) = Finished \<and>
   elements (snd (resume demo_paint demo_render demo_settlement demo_removed)) =
     elements demo_removed \<and>
   ready_signals (events (snd (resume demo_paint demo_render demo_settlement demo_removed))) = []"
proof -
  have a: "r_element demo_render = 0" "r_pc demo_render \<noteq> Finished"
    by (simp_all add: demo_render_eq)
  have b: "elements demo_removed 0 =
      elements (removeTile demo_grid (leaflet_key demo_coords) demo_tracked) 0"
    by (simp add: demo_removed_def)
  have "events demo_removed =
      events demo_tracked @ [FireTileUnload 0 (keyToTileCoords demo_grid (leaflet_key demo_coords))]"
    unfolding demo_removed_def removeTile_tracked [OF demo_tracked_key]
    by (simp add: emit_def)
  then have ev: "ready_signals (events demo_removed) = []"
    by (simp add: demo_tracked_def demo_created_events)
  show ?thesis
    using demo_tracked_key a b ev
      removeTile_stops_render [OF demo_tracked_key a b,
        where P = demo_paint and s = demo_settlement and c = demo_coords and ?w0.0 = demo_layer]
    by (simp add: demo_removed_def demo_render_def)
qed

subsection \<open>Readiness signals\<close>

lemma after_timer_ready:
  "ready_signals (events (snd (after_timer P t tm lt ld w))) = ready_signals (events w) \<or>
   (\<exists>el. r_done t = ShowTile el \<and>
      ready_signals (events (snd (after_timer P t tm lt ld w))) = ready_signals (events w) @ [el])"
proof (cases "stale t w")
  case True
  then show ?thesis by (simp add: after_timer_def)
next
  case False
  show ?thesis
  proof (cases "el_has_ctx (elements w (r_element t))")
    case False
    with \<open>\<not> stale t w\<close> show ?thesis
      by (simp add: after_timer_noctx ready_signals_append)
  next
    case True
    show ?thesis
      by (cases "r_done t")
         (simp_all add: after_timer_fresh [OF \<open>\<not> stale t w\<close> True] Let_def ready_signals_append
           split: option.splits prod.splits)
  qed
qed

lemma resume_ready:
  "ready_signals (events (snd (resume P t s w))) = ready_signals (events w) \<or>
   (\<exists>el. r_done t = ShowTile el \<and>
      ready_signals (events (snd (resume P t s w))) = ready_signals (events w) @ [el])"
proof (cases "r_pc t")
  case (AwaitFetch ks)
  then show ?thesis
    by (simp add: resume_def after_fetch_def Let_def ready_signals_append)
next
  case (AwaitTasks m)
  then show ?thesis
    by (simp add: resume_def after_tasks_def ready_signals_append)
next
  case (AwaitLabelAdd m)
  then show ?thesis
    by (simp add: resume_def after_add_def Let_def ready_signals_append split: option.splits)
next
  case (AwaitTimer m lt ld)
  then show ?thesis
    using after_timer_ready [of P t m lt ld w] by (simp add: resume_def)
next
  case Finished
  then show ?thesis by (simp add: resume_def)
qed

lemma rerenderTile_loop_noopD:
  "rerenderTile_loop h key ts w = (rs, w') \<Longrightarrow> t \<in> set rs \<Longrightarrow> r_done t = NoOp"
proof (induction ts arbitrary: w rs w')
  case Nil
  then show ?case by simp
next
  case (Cons e ts)
  obtain k el where e: "e = (k, el)" by (cases e)
  let ?c = "wrapCoords h (keyToTileCoords h k)"
  show ?case
  proof (cases "key = tileCoordsToKey h ?c")
    case True
    obtain t1 w1 where r: "renderTile ?c el key NoOp w = (t1, w1)"
      by (cases "renderTile ?c el key NoOp w")
    obtain rs2 w2 where l: "rerenderTile_loop h key ts w1 = (rs2, w2)"
      by (cases "rerenderTile_loop h key ts w1")
    have rs: "rs = t1 # rs2"
      using Cons.prems(1) True r l by (simp add: e Let_def)
    have "r_done t1 = NoOp"
      using r by (auto simp: renderTile_def)
    with Cons.prems(2) Cons.IH [OF l] show ?thesis
      by (auto simp: rs)
  next
    case False
    with Cons.prems(1) have "rerenderTile_loop h key ts w = (rs, w')"
      by (simp add: e Let_def)
    from Cons.IH [OF this Cons.prems(2)] show ?thesis .
  qed
qed

lemma rerenderTiles_loop_noopD:
  "rerenderTiles_loop h ts w = (rs, w') \<Longrightarrow> t \<in> set rs \<Longrightarrow> r_done t = NoOp"
proof (induction ts arbitrary: w rs w')
  case Nil
  then show ?case by simp
next
  case (Cons e ts)
  obtain k el where e: "e = (k, el)" by (cases e)
  let ?c = "wrapCoords h (keyToTileCoords h k)"
  obtain t1 w1 where r: "renderTile ?c el (tileCoordsToKey h ?c) NoOp w = (t1, w1)"
    by (cases "renderTile ?c el (tileCoordsToKey h ?c) NoOp w")
  obtain rs2 w2 where l: "rerenderTiles_loop h ts w1 = (rs2, w2)"
    by (cases "rerenderTiles_loop h ts w1")
  from Cons.prems(1) have rs: "rs = t1 # rs2"
    by (simp add: e Let_def r l)
  have "r_done t1 = NoOp"
    using r by (auto simp: renderTile_def)
  with Cons.prems(2) Cons.IH [OF l] show ?case
    by (auto simp: rs)
qed

lemma rerenderTile_loop_noop:
  "\<forall>t\<in>set (fst (rerenderTile_loop h key ts w)). r_done t = NoOp"
  using rerenderTile_loop_noopD [of h key ts w]
  by (cases "rerenderTile_loop h key ts w") auto

lemma rerenderTiles_loop_noop:
  "\<forall>t\<in>set (fst (rerenderTiles_loop h ts w)). r_done t = NoOp"
  using rerenderTiles_loop_noopD [of h ts w]
  by (cases "rerenderTiles_loop h ts w") auto

lemma createTile_key:
  "el_key (elements (snd (snd (createTile h c w))) (next_el w)) = Some (tileCoordsToKey h c)"
  by (simp add: createTile_def renderTile_def Let_def emit_def)

lemma createTile_other:
  "e \<noteq> next_el w \<Longrightarrow> elements (snd (snd (createTile h c w))) e = elements w e"
  by (simp add: createTile_def renderTile_def Let_def emit_def)

text \<open>
  Claim C8, as amended. \<open>createTile(coords, showTile)\<close> makes a new element, gives it
  the key \<open>_tileCoordsToKey(coords)\<close> and starts a render for that element and key whose
  completion callback calls the host's readiness callback with that element: when that
  render passes its last gate and paints, the callback is called once and the render is
  finished. \<open>rerenderTile\<close> and \<open>rerenderTiles\<close> start renders with the default no-op
  callback, and resuming such a render never calls the readiness callback.
\<close>

theorem createTile_signals_ready:
  "fst (createTile h c w) = next_el w \<and>
   next_el (snd (snd (createTile h c w))) = Suc (next_el w) \<and>
   el_key (elements (snd (snd (createTile h c w))) (next_el w)) = Some (tileCoordsToKey h c) \<and>
   fst (snd (createTile h c w)) =
     \<lparr>r_coords = c, r_element = next_el w, r_key = tileCoordsToKey h c,
      r_done = ShowTile (next_el w), r_pc = AwaitFetch (views w)\<rparr> \<and>
   (r_done t = ShowTile el \<and> r_pc t = AwaitTimer tm lt ld \<and> \<not> stale t w' \<and>
    el_has_ctx (elements w' (r_element t)) \<and> (\<forall>(k, v)\<in>set tm. v \<noteq> []) \<longrightarrow>
      ready_signals (events (snd (resume P t s w'))) = ready_signals (events w') @ [el] \<and>
      r_pc (fst (resume P t s w')) = Finished) \<and>
   (\<forall>t'\<in>set (fst (rerenderTile h key w)). r_done t' = NoOp) \<and>
   (\<forall>t'\<in>set (fst (rerenderTiles h w)). r_done t' = NoOp) \<and>
   (r_done tn = NoOp \<longrightarrow>
      ready_signals (events (snd (resume P tn sn wn))) = ready_signals (events wn))"
proof -
  have a: "next_el (snd (snd (createTile h c w))) = Suc (next_el w)"
     "el_key (elements (snd (snd (createTile h c w))) (next_el w)) = Some (tileCoordsToKey h c)"
    by (simp_all add: createTile_def renderTile_def Let_def emit_def)
  have b: "r_done t = ShowTile el \<and> r_pc t = AwaitTimer tm lt ld \<and> \<not> stale t w' \<and>
    el_has_ctx (elements w' (r_element t)) \<and> (\<forall>(k, v)\<in>set tm. v \<noteq> []) \<longrightarrow>
      ready_signals (events (snd (resume P t s w'))) = ready_signals (events w') @ [el] \<and>
      r_pc (fst (resume P t s w')) = Finished"
  proof
    assume h: "r_done t = ShowTile el \<and> r_pc t = AwaitTimer tm lt ld \<and> \<not> stale t w' \<and>
      el_has_ctx (elements w' (r_element t)) \<and> (\<forall>(k, v)\<in>set tm. v \<noteq> [])"
    then have f: "\<not> stale t w'" and x: "el_has_ctx (elements w' (r_element t))"
      and n: "\<forall>(k, v)\<in>set tm. v \<noteq> []"
      by simp_all
    from h have r: "resume P t s w' = after_timer P t tm lt ld w'"
      by (simp add: resume_def)
    show "ready_signals (events (snd (resume P t s w'))) = ready_signals (events w') @ [el] \<and>
      r_pc (fst (resume P t s w')) = Finished"
      using h after_timer_done [OF f x n, of P lt ld]
      by (simp add: r ready_signals_append)
  qed
  have c: "r_done tn = NoOp \<longrightarrow>
      ready_signals (events (snd (resume P tn sn wn))) = ready_signals (events wn)"
    using resume_ready [of P tn sn wn] by auto
  show ?thesis
    using a b c rerenderTile_loop_noop [of h key "l_tiles w" w]
      rerenderTiles_loop_noop [of h "l_tiles w" w]
    by (simp add: createTile_render rerenderTile_def rerenderTiles_def)
qed


lemma leaflet_key_demo: "leaflet_key demo_coords = ''0:0:0''"
  by (simp add: leaflet_key_def demo_coords_def string_of_int_def)

lemma demo_tracked_rerender:
  "fst (rerenderTile demo_grid (leaflet_key demo_coords) demo_tracked) =
     [\<lparr>r_coords = demo_coords, r_element = 0, r_key = leaflet_key demo_coords,
       r_done = NoOp, r_pc = AwaitFetch [''a'', ''b'']\<rparr>]"
  by (simp add: rerenderTile_def demo_tracked_def demo_grid_def Let_def renderTile_def
      demo_created_def createTile_def emit_def demo_layer_def init_layer_def demo_ext_def
      demo_options_def)

lemma demo_tracked_rerender_all:
  "fst (rerenderTiles demo_grid demo_tracked) =
     [\<lparr>r_coords = demo_coords, r_element = 0, r_key = leaflet_key demo_coords,
       r_done = NoOp, r_pc = AwaitFetch [''a'', ''b'']\<rparr>]"
  by (simp add: rerenderTiles_def demo_tracked_def demo_grid_def Let_def renderTile_def
      demo_created_def createTile_def emit_def demo_layer_def init_layer_def demo_ext_def
      demo_options_def)

theorem createTile_signals_ready_witness:
  "r_done (fst demo_run3) = ShowTile 0 \<and>
   r_pc (fst demo_run3) = AwaitTimer [(''a'', [demo_tile])] 0 [] \<and>
   \<not> stale (fst demo_run3) (snd demo_run3) \<and>
   el_has_ctx (elements (snd demo_run3) (r_element (fst demo_run3))) \<and>
   ready_signals (events (snd demo_run4)) = [0] \<and>
   r_pc (fst demo_run4) = Finished \<and>
   fst (rerenderTile demo_grid (leaflet_key demo_coords) demo_tracked) =
     [\<lparr>r_coords = demo_coords, r_element = 0, r_key = leaflet_key demo_coords,
       r_done = NoOp, r_pc = AwaitFetch [''a'', ''b'']\<rparr>] \<and>
   fst (rerenderTiles demo_grid demo_tracked) =
     [\<lparr>r_coords = demo_coords, r_element = 0, r_key = leaflet_key demo_coords,
       r_done = NoOp, r_pc = AwaitFetch [''a'', ''b'']\<rparr>] \<and>
   r_done ((fst demo_run3)\<lparr>r_done := NoOp\<rparr>) = NoOp \<and>
   ready_signals (events (snd (resume demo_paint ((fst demo_run3)\<lparr>r_done := NoOp\<rparr>)
     demo_settlement (snd demo_run3)))) = [] \<and>
   el_key (elements (snd (snd (createTile demo_grid demo_coords demo_tracked))) 1) =
     Some ''0:0:0''"
proof -
  have ev: "ready_signals (events (snd demo_run3)) = []"
    by (simp add: demo_run3_eq demo_created_events)
  have a: "r_done (fst demo_run3) = ShowTile 0"
      "r_pc (fst demo_run3) = AwaitTimer [(''a'', [demo_tile])] 0 []"
      "\<not> stale (fst demo_run3) (snd demo_run3)"
      "el_has_ctx (elements (snd demo_run3) (r_element (fst demo_run3)))"
    using demo_created_fresh
    by (simp_all add: demo_run3_eq demo_render_eq demo_created_ctx stale_def)
  have n: "next_el demo_tracked = 1"
    by (simp add: demo_tracked_def demo_created_def createTile_def renderTile_def Let_def
        emit_def demo_layer_def init_layer_def)
  show ?thesis
    using a ev n demo_tracked_rerender demo_tracked_rerender_all
      createTile_signals_ready [where h = demo_grid and c = demo_coords and w = demo_tracked
        and t = "fst demo_run3" and el = 0 and tm = "[(''a'', [demo_tile])]" and lt = 0
        and ld = "[]" and w' = "snd demo_run3" and P = demo_paint and s = demo_settlement
        and key = "leaflet_key demo_coords" and tn = "(fst demo_run3)\<lparr>r_done := NoOp\<rparr>"
        and sn = demo_settlement and wn = "snd demo_run3"]
    by (simp add: demo_run4_def leaflet_key_demo demo_grid_def)
qed

text \<open>
  Claim C8 as stated fails in its first part: the key is not fresh. It is computed from
  the coordinates alone, so a second tile created for the same coordinates (a world copy,
  or the same tile created again) carries the key of the first, which is still in place.
\<close>

theorem createTile_key_repeats:
  "createTile demo_grid demo_coords demo_layer = (0, demo_render, demo_created) \<and>
   fst demo_second = 1 \<and>
   el_key (elements (snd (snd demo_second)) 0) = Some ''0:0:0'' \<and>
   el_key (elements (snd (snd demo_second)) 1) = Some ''0:0:0'' \<and>
   \<not> el_removed (elements (snd (snd demo_second)) 0) \<and>
   r_key (fst (snd demo_second)) = r_key demo_render"
proof -
  have c: "createTile demo_grid demo_coords demo_layer = (0, demo_render, demo_created)"
    by (simp add: demo_render_def demo_created_def prod_eq_iff createTile_def Let_def
        demo_layer_def init_layer_def)
  have n: "next_el demo_created = 1"
    by (simp add: demo_created_def createTile_def renderTile_def Let_def
        emit_def demo_layer_def init_layer_def)
  have r: "\<not> el_removed (elements demo_created 0)"
    by (simp add: demo_created_def createTile_def renderTile_def Let_def
        emit_def demo_layer_def init_layer_def fresh_element_def)
  have k: "tileCoordsToKey demo_grid demo_coords = ''0:0:0''"
    by (simp add: demo_grid_def leaflet_key_demo)
  have s1: "fst demo_second = 1"
    by (simp add: demo_second_def createTile_render n)
  have s2: "el_key (elements (snd (snd demo_second)) 1) = Some ''0:0:0''"
    using createTile_key [of demo_grid demo_coords demo_created]
    by (simp add: demo_second_def n k)
  have s3: "elements (snd (snd demo_second)) 0 = elements demo_created 0"
    by (simp add: demo_second_def createTile_other n)
  have s4: "r_key (fst (snd demo_second)) = ''0:0:0''" "r_key demo_render = ''0:0:0''"
    by (simp_all add: demo_second_def createTile_render k demo_render_eq leaflet_key_demo)
  show ?thesis
    using c r demo_created_key s1 s2 s4
    by (simp add: s3 leaflet_key_demo)
qed

subsection \<open>The pick cycle\<close>

lemma pick_timeout_fields [simp]:
  "timeouts (pick_timeout ev w) = timeouts w"
  "pointer (pick_timeout ev w) = None"
  "events (pick_timeout ev w) =
     events w @ (case pickedFeatures w of [] \<Rightarrow> [] | f # fs \<Rightarrow> [FireClick ev (pf_feature f)])"
  by (simp_all add: pick_timeout_def emit_def)

lemma timeouts_fold_pick:
  "timeouts (fold (\<lambda>(due, event). pick_timeout event) xs w) = timeouts w"
  by (induction xs arbitrary: w) (auto split: prod.splits)

lemma timeouts_advance_to:
  "timeouts (advance_to now w) = filter (\<lambda>(due, e). \<not> due \<le> now) (timeouts w)"
  by (simp add: advance_to_def timeouts_fold_pick)

lemma advance_to_none_due:
  assumes "\<forall>(due, e)\<in>set (timeouts w). now < due"
  shows "advance_to now w = w\<lparr>clock := max now (clock w)\<rparr>"
proof -
  have a: "filter (\<lambda>(due, event). due \<le> now) (timeouts w) = []"
    using assms by (auto simp: filter_empty_conv)
  have b: "filter (\<lambda>(due, event). \<not> due \<le> now) (timeouts w) = timeouts w"
    using assms by (auto simp: filter_id_conv)
  show ?thesis
    by (simp add: advance_to_def a b)
qed

lemma pickedFeatures_pick_timeout [simp]:
  "pickedFeatures (pick_timeout ev w) = pickedFeatures w"
  by (simp add: pick_timeout_def emit_def)

lemma events_fold_pick:
  "events (fold (\<lambda>(due, event). pick_timeout event) xs w) =
     events w @ (case pickedFeatures w of [] \<Rightarrow> []
                 | f # fs \<Rightarrow> map (\<lambda>(due, event). FireClick event (pf_feature f)) xs)"
proof (induction xs arbitrary: w)
  case Nil
  then show ?case by (simp split: list.splits)
next
  case (Cons x xs)
  obtain d e where x: "x = (d, e)" by (cases x)
  show ?case
    by (simp add: x Cons.IH split: list.splits)
qed

lemma pointer_fold_pick:
  "pointer (fold (\<lambda>(due, event). pick_timeout event) xs w) =
     (if xs = [] then pointer w else None)"
proof (induction xs arbitrary: w)
  case Nil
  then show ?case by simp
next
  case (Cons x xs)
  obtain d e where x: "x = (d, e)" by (cases x)
  show ?case
    by (simp add: x Cons.IH)
qed

lemma events_advance_to:
  "events (advance_to now w) =
     events w @ (case pickedFeatures w of [] \<Rightarrow> []
                 | f # fs \<Rightarrow> map (\<lambda>(due, event). FireClick event (pf_feature f))
                             (filter (\<lambda>(due, event). due \<le> now) (timeouts w)))"
  by (simp add: advance_to_def events_fold_pick)

lemma pointer_advance_to:
  "pointer (advance_to now w) =
     (if filter (\<lambda>(due, event). due \<le> now) (timeouts w) = [] then pointer w else None)"
  by (simp add: advance_to_def pointer_fold_pick)

text \<open>
  Claim C3, as amended. A click sets the pointer state from the event, empties the
  picked-feature accumulator, asks the host to redraw and adds a callback that is due
  1000 ms later; callbacks that are already pending stay pending. When a callback runs
  it fires a click event with its own event and the first picked feature if the
  accumulator is not empty, and clears the pointer state in any case. As time passes
  every callback that is due runs, whatever else is pending, in the order of the clicks,
  and the others stay pending: with two callbacks pending, the first one runs at its own
  deadline while the second one is still waiting.
\<close>

theorem pick_cycle:
  assumes "getPointer w ev = Inr p"
  shows "onLayerClick ev w =
           Inr (emit [Redraw]
                  (w\<lparr>pointer := Some p, pickedFeatures := [],
                     timeouts := timeouts w @ [(clock w + 1000, ev)]\<rparr>)) \<and>
         pointer (pick_timeout ev w') = None \<and>
         events (pick_timeout ev w') =
           events w' @ (case pickedFeatures w' of [] \<Rightarrow> []
                        | f # fs \<Rightarrow> [FireClick ev (pf_feature f)]) \<and>
         timeouts (advance_to now w') = filter (\<lambda>(due, e). \<not> due \<le> now) (timeouts w') \<and>
         (timeouts w' = [(due, ev)] \<and> due \<le> now \<longrightarrow>
            advance_to now w' =
              pick_timeout ev (w'\<lparr>clock := max now (clock w'), timeouts := []\<rparr>)) \<and>
         ((\<forall>(due, e)\<in>set (timeouts wq). nowq < due) \<longrightarrow>
            advance_to nowq wq = wq\<lparr>clock := max nowq (clock wq)\<rparr>) \<and>
         events (advance_to now w') =
           events w' @ (case pickedFeatures w' of [] \<Rightarrow> []
                        | f # fs \<Rightarrow> map (\<lambda>(due, e). FireClick e (pf_feature f))
                                    (filter (\<lambda>(due, e). due \<le> now) (timeouts w'))) \<and>
         pointer (advance_to now w') =
           (if filter (\<lambda>(due, e). due \<le> now) (timeouts w') = [] then pointer w' else None) \<and>
         (timeouts w2 = [(d1, e1), (d2, e2)] \<and> d1 \<le> now2 \<and> now2 < d2 \<longrightarrow>
            advance_to now2 w2 =
              pick_timeout e1 (w2\<lparr>clock := max now2 (clock w2), timeouts := [(d2, e2)]\<rparr>))"
proof -
  have one: "timeouts w' = [(due, ev)] \<and> due \<le> now \<longrightarrow>
            advance_to now w' =
              pick_timeout ev (w'\<lparr>clock := max now (clock w'), timeouts := []\<rparr>)"
    by (simp add: advance_to_def)
  have two: "timeouts w2 = [(d1, e1), (d2, e2)] \<and> d1 \<le> now2 \<and> now2 < d2 \<longrightarrow>
            advance_to now2 w2 =
              pick_timeout e1 (w2\<lparr>clock := max now2 (clock w2), timeouts := [(d2, e2)]\<rparr>)"
    by (simp add: advance_to_def)
  show ?thesis
    using assms one two advance_to_none_due [of wq nowq]
    by (simp add: onLayerClick_def timeouts_advance_to events_advance_to pointer_advance_to)
qed

lemma demo_layer_clock: "clock demo_layer = 0" "timeouts demo_layer = []" "events demo_layer = []"
  by (simp_all add: demo_layer_def init_layer_def)

lemma getPointer_demo: "getPointer demo_layer demo_click = Inr demo_pointer"
  by (simp add: getPointer_demo_click demo_pointer_def)

lemma onLayerClick_demo: "onLayerClick demo_click demo_layer = Inr demo_clicked1"
  by (simp add: onLayerClick_def getPointer_demo demo_clicked1_def demo_layer_clock)

lemma demo_clicked1_fields:
  "timeouts demo_clicked1 = [(1000, demo_click)]" "clock demo_clicked1 = 0"
  "l_map demo_clicked1 = Some demo_map" "tileSize demo_clicked1 = 256"
  "events demo_clicked1 = [Redraw]"
  by (simp_all add: demo_clicked1_def emit_def demo_layer_clock demo_layer_map demo_layer_tileSize)

lemma demo_advance_500: "advance_to 500 demo_clicked1 = demo_clicked1\<lparr>clock := 500\<rparr>"
  by (simp add: advance_to_def demo_clicked1_fields)

lemma demo_picked_fields:
  "timeouts demo_picked = [(1000, demo_click), (1500, demo_click2)]"
  "events demo_picked = [Redraw, Redraw]"
  "pickedFeatures demo_picked = [\<lparr>pf_feature = 9, pf_layerName = ''roads''\<rparr>]"
  "pointer demo_picked = Some demo_pointer"
  "timeouts demo_clicked2 = [(1000, demo_click), (1500, demo_click2)]"
  by (simp_all add: demo_picked_def demo_clicked2_def emit_def demo_advance_500
      demo_clicked1_fields)

theorem pick_cycle_witness:
  "getPointer demo_layer demo_click = Inr demo_pointer \<and>
   onLayerClick demo_click demo_layer = Inr demo_clicked1 \<and>
   timeouts (demo_clicked1\<lparr>pickedFeatures := [\<lparr>pf_feature = 9, pf_layerName = ''roads''\<rparr>]\<rparr>) =
     [(1000, demo_click)] \<and> (1000 :: nat) \<le> 1000 \<and>
   timeouts demo_clicked1 = [(1000, demo_click)] \<and> (999 :: nat) < 1000 \<and>
   pointer (advance_to 999 demo_clicked1) = Some demo_pointer \<and>
   pointer (advance_to 1000
     (demo_clicked1\<lparr>pickedFeatures := [\<lparr>pf_feature = 9, pf_layerName = ''roads''\<rparr>]\<rparr>)) = None \<and>
   events (advance_to 1000
     (demo_clicked1\<lparr>pickedFeatures := [\<lparr>pf_feature = 9, pf_layerName = ''roads''\<rparr>]\<rparr>)) =
     [Redraw, FireClick demo_click 9] \<and>
   timeouts (advance_to 1000
     (demo_clicked1\<lparr>pickedFeatures := [\<lparr>pf_feature = 9, pf_layerName = ''roads''\<rparr>]\<rparr>)) = [] \<and>
   timeouts demo_picked = [(1000, demo_click), (1500, demo_click2)] \<and>
   (1000 :: nat) < 1500 \<and>
   advance_to 1000 demo_picked =
     pick_timeout demo_click (demo_picked\<lparr>clock := max 1000 (clock demo_picked),
                                           timeouts := [(1500, demo_click2)]\<rparr>)"
proof -
  let ?w = "demo_clicked1\<lparr>pickedFeatures := [\<lparr>pf_feature = 9, pf_layerName = ''roads''\<rparr>]\<rparr>"
  have p: "pointer demo_clicked1 = Some demo_pointer"
    by (simp add: demo_clicked1_def emit_def)
  show ?thesis
    using getPointer_demo onLayerClick_demo p demo_picked_fields(1)
      pick_cycle [OF getPointer_demo, where w' = ?w and now = 1000 and due = 1000
        and wq = demo_clicked1 and nowq = 999 and ?w2.0 = demo_picked and ?d1.0 = 1000
        and ?e1.0 = demo_click and ?d2.0 = 1500 and ?e2.0 = demo_click2 and ?now2.0 = 1000]
    by (simp add: demo_clicked1_fields)
qed

text \<open>
  Claim C3 as stated fails in its last part: a click while a callback is pending does not
  restart the window. After clicks at 0 ms and at 500 ms two callbacks are pending. At
  1000 ms, in the middle of the second click's window, the first callback runs: it clears
  the pointer state of the second click and fires a click event that carries the first
  click's event with a feature picked for the second.
\<close>

theorem two_clicks_overlap:
  "onLayerClick demo_click demo_layer = Inr demo_clicked1 \<and>
   onLayerClick demo_click2 (advance_to 500 demo_clicked1) = Inr demo_clicked2 \<and>
   timeouts demo_clicked2 = [(1000, demo_click), (1500, demo_click2)] \<and>
   pointer demo_picked = Some demo_pointer \<and>
   pointer (advance_to 1000 demo_picked) = None \<and>
   timeouts (advance_to 1000 demo_picked) = [(1500, demo_click2)] \<and>
   events (advance_to 1000 demo_picked) = [Redraw, Redraw, FireClick demo_click 9]"
proof -
  have gp: "getPointer (demo_clicked1\<lparr>clock := 500\<rparr>) demo_click2 = Inr demo_pointer"
    by (simp add: getPointer_def demo_clicked1_fields demo_map_def demo_click2_def
        demo_pointer_def onZoom_def normalized_origin shl1_0 Let_def)
  have c2: "onLayerClick demo_click2 (advance_to 500 demo_clicked1) = Inr demo_clicked2"
    by (simp add: demo_advance_500 onLayerClick_def gp demo_clicked2_def demo_clicked1_fields)
  show ?thesis
    using onLayerClick_demo c2 demo_picked_fields
    by (simp add: advance_to_def)
qed

end
